theory Spec2Isabelle
  imports Main "HOL-Library.AList"
begin

section \<open>Data model (featurestore\_data\_classes.py)\<close>

text \<open>
  Modelled from the spec: the enum \<open>Feature.ValueType\<close> belongs to the vendor library
  \<open>google.cloud.aiplatform_v1\<close>, which the source imports. Its members are the scalar
  types, their array variants (the four the importer tests for by name) and the
  unspecified default that \<open>FeatureMetadata\<close> starts with.
\<close>

datatype ValueType =
    VALUE_TYPE_UNSPECIFIED
  | BOOL | BOOL_ARRAY
  | DOUBLE | DOUBLE_ARRAY
  | INT64 | INT64_ARRAY
  | STRING | STRING_ARRAY
  | BYTES

text \<open>The attribute \<open>.name\<close> of an enum member.\<close>

fun name :: "ValueType \<Rightarrow> string" where
  "name VALUE_TYPE_UNSPECIFIED = ''VALUE_TYPE_UNSPECIFIED''"
| "name BOOL = ''BOOL''"
| "name BOOL_ARRAY = ''BOOL_ARRAY''"
| "name DOUBLE = ''DOUBLE''"
| "name DOUBLE_ARRAY = ''DOUBLE_ARRAY''"
| "name INT64 = ''INT64''"
| "name INT64_ARRAY = ''INT64_ARRAY''"
| "name STRING = ''STRING''"
| "name STRING_ARRAY = ''STRING_ARRAY''"
| "name BYTES = ''BYTES''"

text \<open>
  The lookup \<open>Feature.ValueType[s]\<close> of a member by name; \<open>None\<close> stands for the
  \<open>KeyError\<close> that a string naming no member raises.
\<close>

definition ValueType_getitem :: "string \<Rightarrow> ValueType option" where
  "ValueType_getitem s =
     (if s = ''VALUE_TYPE_UNSPECIFIED'' then Some VALUE_TYPE_UNSPECIFIED
      else if s = ''BOOL'' then Some BOOL
      else if s = ''BOOL_ARRAY'' then Some BOOL_ARRAY
      else if s = ''DOUBLE'' then Some DOUBLE
      else if s = ''DOUBLE_ARRAY'' then Some DOUBLE_ARRAY
      else if s = ''INT64'' then Some INT64
      else if s = ''INT64_ARRAY'' then Some INT64_ARRAY
      else if s = ''STRING'' then Some STRING
      else if s = ''STRING_ARRAY'' then Some STRING_ARRAY
      else if s = ''BYTES'' then Some BYTES
      else None)"

text \<open>
  \<open>str.upper()\<close>, on the characters of a \<open>string\<close>: the letters a to z go to A to Z and
  every other character stays.
\<close>

definition upper_char :: "char \<Rightarrow> char" where
  "upper_char c =
     (case map_of (zip ''abcdefghijklmnopqrstuvwxyz'' ''ABCDEFGHIJKLMNOPQRSTUVWXYZ'') c of
        Some u \<Rightarrow> u
      | None \<Rightarrow> c)"

definition upper :: "string \<Rightarrow> string" where
  "upper s = map upper_char s"

text \<open>
  The dataclasses. Every \<open>defaultdict\<close> is an association list in insertion order;
  \<open>AList.update\<close> overwrites the value of a key where it stands and appends a new key
  at the end, as assignment into a Python dictionary does.
\<close>

record FeatureMetadata =
  data_type :: ValueType

record Feature =
  val :: string

record Entity =
  features :: "(string \<times> Feature) list"

record EntityType =
  features_metadata :: "(string \<times> FeatureMetadata) list"
  entities :: "(string \<times> Entity) list"

record Featurestore =
  entity_types :: "(string \<times> EntityType) list"

type_synonym featurestores_data = "(string \<times> Featurestore) list"

definition FeatureMetadata_new :: FeatureMetadata where
  "FeatureMetadata_new = \<lparr>data_type = VALUE_TYPE_UNSPECIFIED\<rparr>"

definition Feature_new :: Feature where
  "Feature_new = \<lparr>val = []\<rparr>"

definition Entity_new :: Entity where
  "Entity_new = \<lparr>features = []\<rparr>"

definition EntityType_new :: EntityType where
  "EntityType_new = \<lparr>features_metadata = [], entities = []\<rparr>"

definition Featurestore_new :: Featurestore where
  "Featurestore_new = \<lparr>entity_types = []\<rparr>"

text \<open>
  \<open>d[k]\<close> on a \<open>defaultdict\<close>: \<open>dd_get\<close> is the object that the access returns (the
  default when the key is new), \<open>dd_touch\<close> is the dictionary after the access (the key
  inserted with the default when it was absent).
\<close>

definition dd_get :: "'v \<Rightarrow> ('k \<times> 'v) list \<Rightarrow> 'k \<Rightarrow> 'v" where
  "dd_get dflt d k = (case map_of d k of Some v \<Rightarrow> v | None \<Rightarrow> dflt)"

definition dd_touch :: "'v \<Rightarrow> 'k \<Rightarrow> ('k \<times> 'v) list \<Rightarrow> ('k \<times> 'v) list" where
  "dd_touch dflt k d = (case map_of d k of Some v \<Rightarrow> d | None \<Rightarrow> d @ [(k, dflt)])"

section \<open>The importer's parser (data\_importer.py)\<close>

text \<open>
  The warnings that the parser logs. \<open>Failed_to_parse\<close> carries the row joined by
  \<open>/\<close>, \<open>Unknown_datatype\<close> the upper-cased token.
\<close>

datatype warning =
    Failed_to_parse string
  | Unknown_datatype string
  | Array_not_supported

fun join_slash :: "string list \<Rightarrow> string" where
  "join_slash [] = []"
| "join_slash [x] = x"
| "join_slash (x # y # ys) = x @ ''/'' @ join_slash (y # ys)"

text \<open>
  The state of one parse run: the model under construction, the collision-avoidance
  map, the number of \<open>uuid4()\<close> calls made so far and the warnings logged so far.
  The source of randomness is a parameter \<open>uuid4\<close>: its value at \<open>n\<close> is the text of
  the \<open>n\<close>-th identifier drawn in the run.
\<close>

record parse_state =
  featurestores :: featurestores_data
  featurestore_id_map :: "(string \<times> string) list"
  uuid_calls :: nat
  warnings :: "warning list"

definition parse_state_init :: parse_state where
  "parse_state_init =
     \<lparr>featurestores = [], featurestore_id_map = [], uuid_calls = 0, warnings = []\<rparr>"

definition parse_values ::
  "string list \<Rightarrow> bool \<times> string \<times> string \<times> string \<times> string \<times> string \<times> string" where
  "parse_values row =
     (if length row \<noteq> 12 then (False, [], [], [], [], [], [])
      else (True, row ! 1, row ! 3, row ! 5, row ! 7, row ! 9, row ! 11))"

definition is_array_type :: "ValueType \<Rightarrow> bool" where
  "is_array_type t \<longleftrightarrow> t \<in> {BOOL_ARRAY, DOUBLE_ARRAY, INT64_ARRAY, STRING_ARRAY}"

text \<open>
  \<open>_set_feature_metadata\<close> returns whether it succeeded, the entity type after the
  call and the warnings it logged.
\<close>

definition set_feature_metadata ::
  "string \<Rightarrow> string \<Rightarrow> EntityType \<Rightarrow> bool \<times> EntityType \<times> warning list" where
  "set_feature_metadata feature_id feature_data_type entity_type =
     (if feature_id \<notin> fst ` set (features_metadata entity_type) then
        (case ValueType_getitem (upper feature_data_type) of
           None \<Rightarrow> (False, entity_type, [Unknown_datatype (upper feature_data_type)])
         | Some feature_data_type_value \<Rightarrow>
             if is_array_type feature_data_type_value
             then (False, entity_type, [Array_not_supported])
             else (True,
                   entity_type\<lparr>features_metadata :=
                     AList.update feature_id
                       ((dd_get FeatureMetadata_new (features_metadata entity_type) feature_id)
                          \<lparr>data_type := feature_data_type_value\<rparr>)
                       (features_metadata entity_type)\<rparr>,
                   []))
      else (True, entity_type, []))"

text \<open>
  \<open>_map_featurestore\<close> returns the remapped identifier together with the state, in
  which the featurestore of that identifier exists.
\<close>

definition map_featurestore ::
  "(nat \<Rightarrow> string) \<Rightarrow> parse_state \<Rightarrow> string \<Rightarrow> string \<times> parse_state" where
  "map_featurestore uuid4 st featurestore_id =
     (let st1 =
        (if featurestore_id \<notin> fst ` set (featurestore_id_map st)
         then st\<lparr>featurestore_id_map :=
                   AList.update featurestore_id
                     (featurestore_id @ ''_'' @ take 5 (uuid4 (uuid_calls st)))
                     (featurestore_id_map st),
                 uuid_calls := Suc (uuid_calls st)\<rparr>
         else st);
        mapped_id = dd_get [] (featurestore_id_map st1) featurestore_id
      in (mapped_id,
          st1\<lparr>featurestores := dd_touch Featurestore_new mapped_id (featurestores st1)\<rparr>))"

text \<open>
  The assignment \<open>entity_type.entities[entity_id].features[feature_id].value = v\<close>.
\<close>

definition set_value :: "string \<Rightarrow> string \<Rightarrow> string \<Rightarrow> EntityType \<Rightarrow> EntityType" where
  "set_value entity_id feature_id feature_value entity_type =
     (let entity = dd_get Entity_new (entities entity_type) entity_id;
          feature = dd_get Feature_new (features entity) feature_id
      in entity_type\<lparr>entities :=
           AList.update entity_id
             (entity\<lparr>features :=
                AList.update feature_id (feature\<lparr>val := feature_value\<rparr>) (features entity)\<rparr>)
             (entities entity_type)\<rparr>)"

definition store_values ::
  "(nat \<Rightarrow> string) \<Rightarrow> parse_state \<Rightarrow> string \<Rightarrow> string \<Rightarrow> string \<Rightarrow> string \<Rightarrow> string \<Rightarrow> string
     \<Rightarrow> parse_state" where
  "store_values uuid4 st featurestore_id entity_type_id entity_id feature_id
       feature_data_type feature_value =
     (case map_featurestore uuid4 st featurestore_id of (mapped_id, st1) \<Rightarrow>
        let featurestore = dd_get Featurestore_new (featurestores st1) mapped_id;
            entity_type = dd_get EntityType_new (entity_types featurestore) entity_type_id
        in (case set_feature_metadata feature_id feature_data_type entity_type of
              (success, entity_type1, ws) \<Rightarrow>
                let entity_type2 =
                      (if success
                       then set_value entity_id feature_id feature_value entity_type1
                       else entity_type1);
                    featurestore1 =
                      featurestore\<lparr>entity_types :=
                        AList.update entity_type_id entity_type2 (entity_types featurestore)\<rparr>
                in st1\<lparr>featurestores :=
                         AList.update mapped_id featurestore1 (featurestores st1),
                       warnings := warnings st1 @ ws\<rparr>))"

text \<open>The body of the loop of \<open>_parse_schema_and_data\<close>, for one row of the reader.\<close>

definition parse_row :: "(nat \<Rightarrow> string) \<Rightarrow> parse_state \<Rightarrow> string list \<Rightarrow> parse_state" where
  "parse_row uuid4 st row =
     (case parse_values row of
        (success, featurestore_id, entity_type_id, entity_id, feature_id,
           feature_data_type, feature_value) \<Rightarrow>
          if success
          then store_values uuid4 st featurestore_id entity_type_id entity_id feature_id
                 feature_data_type feature_value
          else st\<lparr>warnings := warnings st @ [Failed_to_parse (join_slash row)]\<rparr>)"

text \<open>
  \<open>_parse_schema_and_data\<close>, on the rows that \<open>csv.reader\<close> yields for the file; the
  returned model is the field \<open>featurestores\<close> of the final state.
\<close>

definition parse_rows :: "(nat \<Rightarrow> string) \<Rightarrow> parse_state \<Rightarrow> string list list \<Rightarrow> parse_state" where
  "parse_rows uuid4 st rows = foldl (parse_row uuid4) st rows"

definition parse_schema_and_data :: "(nat \<Rightarrow> string) \<Rightarrow> string list list \<Rightarrow> parse_state" where
  "parse_schema_and_data uuid4 rows = parse_rows uuid4 parse_state_init rows"

text \<open>
  What a model holds, read through the dictionaries: the value stored for a
  (featurestore, entity type, entity, feature) combination and the value type recorded
  for a (featurestore, entity type, feature) combination, \<open>None\<close> where a key is absent.
\<close>

definition et_content :: "EntityType \<Rightarrow> string \<Rightarrow> string \<Rightarrow> string option" where
  "et_content T e f =
     (case map_of (entities T) e of
        None \<Rightarrow> None
      | Some E \<Rightarrow> map_option val (map_of (features E) f))"

definition et_metadata :: "EntityType \<Rightarrow> string \<Rightarrow> ValueType option" where
  "et_metadata T f = map_option data_type (map_of (features_metadata T) f)"

definition content ::
  "featurestores_data \<Rightarrow> string \<Rightarrow> string \<Rightarrow> string \<Rightarrow> string \<Rightarrow> string option" where
  "content m fs et e f =
     (case map_of m fs of
        None \<Rightarrow> None
      | Some F \<Rightarrow>
          (case map_of (entity_types F) et of
             None \<Rightarrow> None
           | Some T \<Rightarrow> et_content T e f))"

definition metadata ::
  "featurestores_data \<Rightarrow> string \<Rightarrow> string \<Rightarrow> string \<Rightarrow> ValueType option" where
  "metadata m fs et f =
     (case map_of m fs of
        None \<Rightarrow> None
      | Some F \<Rightarrow>
          (case map_of (entity_types F) et of
             None \<Rightarrow> None
           | Some T \<Rightarrow> et_metadata T f))"

text \<open>
  The identifier under which \<open>_map_featurestore\<close> files the rows of an original
  featurestore identifier, in a given state of the run.
\<close>

definition mapped_id :: "(nat \<Rightarrow> string) \<Rightarrow> parse_state \<Rightarrow> string \<Rightarrow> string" where
  "mapped_id uuid4 st fs = fst (map_featurestore uuid4 st fs)"

text \<open>
  Auxiliary readings of the parser: the entity type object that two nested
  \<open>defaultdict\<close> accesses return, what \<open>_store_values\<close> does to that object, and
  whether a data-type token names a member that is not an array type.
\<close>

definition the_entity_type :: "featurestores_data \<Rightarrow> string \<Rightarrow> string \<Rightarrow> EntityType" where
  "the_entity_type m fs et =
     dd_get EntityType_new (entity_types (dd_get Featurestore_new m fs)) et"

definition update_entity_type ::
  "string \<Rightarrow> string \<Rightarrow> string \<Rightarrow> string \<Rightarrow> EntityType \<Rightarrow> EntityType \<times> warning list" where
  "update_entity_type e f dt v T =
     (case set_feature_metadata f dt T of
        (ok, T1, ws) \<Rightarrow> (if ok then set_value e f v T1 else T1, ws))"

definition scalar_token :: "string \<Rightarrow> bool" where
  "scalar_token dt =
     (case ValueType_getitem (upper dt) of None \<Rightarrow> False | Some t \<Rightarrow> \<not> is_array_type t)"

text \<open>
  The collision-avoidance map that a run builds for a list of distinct original
  identifiers in their order of first reference: the identifier at position \<open>n\<close> gets
  the suffix of the \<open>n\<close>-th \<open>uuid4()\<close> call.
\<close>

definition remap_table :: "(nat \<Rightarrow> string) \<Rightarrow> string list \<Rightarrow> (string \<times> string) list" where
  "remap_table uuid4 ids =
     map (\<lambda>(n, fs). (fs, fs @ ''_'' @ take 5 (uuid4 n))) (enumerate 0 ids)"

section \<open>Remote operations and their failures\<close>

text \<open>
  The feature-store service and the object store are outside the program. A run is
  modelled against an environment that decides, from the calls issued so far, whether
  the next call raises, and what the staged CSV of an export reads as. The state of a
  run records every call issued together with the exception it raised, if any, and
  counts the \<open>uuid4()\<close> calls. \<open>Blob_object\<close> stands for obtaining the blob handle
  of a staging path (storage client, bucket and blob lookup), \<open>Csv_reader\<close> for reading
  the downloaded text as CSV.
\<close>

type_synonym exn = string

datatype call =
    Featurestore_client
  | Create_featurestore string
  | Create_entity_type string string
  | Batch_create_features string string "(string \<times> ValueType) list"
  | Blob_object string
  | Upload_from_file string "string list list"
  | Import_feature_values string string string string "string list"
  | Export_feature_values string string
  | Download_as_bytes string
  | Csv_reader string
  | Blob_delete string

type_synonym trace = "(call \<times> exn option) list"

record env =
  raises :: "trace \<Rightarrow> call \<Rightarrow> exn option"
  csv_rows :: "trace \<Rightarrow> string \<Rightarrow> string list list"

record remote_state =
  calls :: trace
  drawn :: nat

type_synonym ('s, 'a) action = "'s \<Rightarrow> 's \<times> (exn + 'a)"

definition ret :: "'a \<Rightarrow> ('s, 'a) action" where
  "ret a s = (s, Inr a)"

text \<open>Sequencing: an exception of the first action ends the sequence.\<close>

definition then_do :: "('s, 'a) action \<Rightarrow> ('a \<Rightarrow> ('s, 'b) action) \<Rightarrow> ('s, 'b) action" where
  "then_do m k s = (case m s of (s1, Inl e) \<Rightarrow> (s1, Inl e) | (s1, Inr a) \<Rightarrow> k a s1)"

text \<open>
  \<open>try: body finally: fin\<close>. The final block runs on every outcome of the body; its
  own exception, if it raises, replaces the outcome of the body.
\<close>

definition try_finally :: "('s, 'a) action \<Rightarrow> ('s, unit) action \<Rightarrow> ('s, 'a) action" where
  "try_finally body fin s =
     (case body s of
        (s1, r) \<Rightarrow> (case fin s1 of (s2, Inl e) \<Rightarrow> (s2, Inl e) | (s2, Inr u) \<Rightarrow> (s2, r)))"

text \<open>A \<open>for\<close> loop whose body may raise.\<close>

fun for_each :: "('x \<Rightarrow> ('s, unit) action) \<Rightarrow> 'x list \<Rightarrow> ('s, unit) action" where
  "for_each body [] s = (s, Inr ())"
| "for_each body (x # xs) s =
     (case body x s of (s1, Inl e) \<Rightarrow> (s1, Inl e) | (s1, Inr u) \<Rightarrow> for_each body xs s1)"

definition issue :: "env \<Rightarrow> call \<Rightarrow> ('a remote_state_scheme, unit) action" where
  "issue environment c s =
     (s\<lparr>calls := calls s @ [(c, raises environment (calls s) c)]\<rparr>,
      case raises environment (calls s) c of None \<Rightarrow> Inr () | Some e \<Rightarrow> Inl e)"

text \<open>\<open>str(uuid4())[:5]\<close>\<close>

definition uuid_suffix :: "(nat \<Rightarrow> string) \<Rightarrow> ('a remote_state_scheme, string) action" where
  "uuid_suffix uuid4 s = (s\<lparr>drawn := Suc (drawn s)\<rparr>, Inr (take 5 (uuid4 (drawn s))))"

text \<open>\<open>os.path.join\<close> of two components.\<close>

definition path_join :: "string \<Rightarrow> string \<Rightarrow> string" where
  "path_join a b =
     (if b \<noteq> [] \<and> hd b = CHR ''/'' then b
      else if a = [] \<or> last a = CHR ''/'' then a @ b
      else a @ ''/'' @ b)"

text \<open>
  Readings of a trace: the exceptions raised, in order; the outcome they determine
  when nothing catches an exception (the last one raised propagates); how often the
  blob of a path was deleted, and how often its handle was obtained.
\<close>

definition raised :: "trace \<Rightarrow> exn list" where
  "raised tr = List.map_filter snd tr"

definition outcome :: "trace \<Rightarrow> exn + unit" where
  "outcome tr = (if raised tr = [] then Inr () else Inl (last (raised tr)))"

definition deletions :: "string \<Rightarrow> trace \<Rightarrow> nat" where
  "deletions p tr = length (filter (\<lambda>x. fst x = Blob_delete p) tr)"

definition creations :: "string \<Rightarrow> trace \<Rightarrow> nat" where
  "creations p tr = length (filter (\<lambda>x. x = (Blob_object p, None)) tr)"

text \<open>
  An action is tidy when, from every state, the calls it adds delete each blob as often
  as its handle was obtained, and its result is the outcome of the calls it adds.
\<close>

definition tidy :: "('a remote_state_scheme, unit) action \<Rightarrow> bool" where
  "tidy act \<longleftrightarrow>
     (\<forall>s. \<exists>new. calls (fst (act s)) = calls s @ new
        \<and> (\<forall>p. deletions p new = creations p new) \<and> snd (act s) = outcome new)"

text \<open>
  A result agrees with the calls added when it is the last exception raised among them,
  or a value and none of them raised. An action is plain when it touches no blob
  handle and its result agrees with the calls it adds.
\<close>

definition agrees :: "exn + 'a \<Rightarrow> trace \<Rightarrow> bool" where
  "agrees r new \<longleftrightarrow>
     (case r of
        Inl e \<Rightarrow> raised new \<noteq> [] \<and> last (raised new) = e
      | Inr a \<Rightarrow> raised new = [])"

definition plain :: "('s remote_state_scheme, 'a) action \<Rightarrow> bool" where
  "plain act \<longleftrightarrow>
     (\<forall>s. \<exists>new. calls (fst (act s)) = calls s @ new
        \<and> (\<forall>p. deletions p new = 0 \<and> creations p new = 0) \<and> agrees (snd (act s)) new)"

section \<open>The importer's remote steps (data\_importer.py)\<close>

definition create_features :: "env \<Rightarrow> string \<Rightarrow> string \<Rightarrow> EntityType \<Rightarrow> (remote_state, unit) action" where
  "create_features environment featurestore_id entity_type_id entity_type =
     issue environment
       (Batch_create_features featurestore_id entity_type_id
          (map (\<lambda>(feature_metadata_id, feature_metadata).
                  (feature_metadata_id, data_type feature_metadata))
             (features_metadata entity_type)))"

definition create_schema :: "env \<Rightarrow> featurestores_data \<Rightarrow> (remote_state, unit) action" where
  "create_schema environment fss =
     for_each (\<lambda>(featurestore_id, featurestore).
       then_do (issue environment (Create_featurestore featurestore_id)) (\<lambda>u.
         for_each (\<lambda>(entity_type_id, entity_type).
           then_do (issue environment (Create_entity_type featurestore_id entity_type_id)) (\<lambda>u.
             create_features environment featurestore_id entity_type_id entity_type))
           (entity_types featurestore)))
       fss"

definition create_blob_object ::
  "env \<Rightarrow> (nat \<Rightarrow> string) \<Rightarrow> string \<Rightarrow> string \<Rightarrow> (remote_state, string) action" where
  "create_blob_object environment uuid4 gcs_path entity_type_id =
     then_do (uuid_suffix uuid4) (\<lambda>suffix.
       let filepath = path_join gcs_path (entity_type_id @ ''_'' @ suffix @ ''.csv'')
       in then_do (issue environment (Blob_object filepath)) (\<lambda>u. ret filepath))"

text \<open>The header row and the entity rows of the staging CSV.\<close>

definition write_header :: "string \<Rightarrow> EntityType \<Rightarrow> string list" where
  "write_header entity_id_column_id entity_type =
     entity_id_column_id # map fst (features_metadata entity_type)"

definition write_row :: "EntityType \<Rightarrow> string \<Rightarrow> Entity \<Rightarrow> string list" where
  "write_row entity_type entity_id entity =
     entity_id #
       map (\<lambda>feature_metadata_id. val (dd_get Feature_new (features entity) feature_metadata_id))
         (map fst (features_metadata entity_type))"

definition upload_data_file ::
  "env \<Rightarrow> (nat \<Rightarrow> string) \<Rightarrow> EntityType \<Rightarrow> string \<Rightarrow> (remote_state, string) action" where
  "upload_data_file environment uuid4 entity_type filepath =
     then_do (uuid_suffix uuid4) (\<lambda>suffix.
       let entity_id_column_id = ''entity_id_'' @ suffix
       in then_do
            (issue environment
               (Upload_from_file filepath
                  (write_header entity_id_column_id entity_type #
                   map (\<lambda>(entity_id, entity). write_row entity_type entity_id entity)
                     (entities entity_type))))
            (\<lambda>u. ret entity_id_column_id))"

definition run_data_ingestion_job ::
  "env \<Rightarrow> string \<Rightarrow> string \<Rightarrow> EntityType \<Rightarrow> string \<Rightarrow> string \<Rightarrow> (remote_state, unit) action" where
  "run_data_ingestion_job environment featurestore_id entity_type_id entity_type filepath
       entity_id_column_id =
     issue environment
       (Import_feature_values featurestore_id entity_type_id filepath entity_id_column_id
          (map fst (features_metadata entity_type)))"

text \<open>The body of the inner loop of \<open>_upload_data\<close>, for one entity type.\<close>

definition upload_entity_type ::
  "env \<Rightarrow> (nat \<Rightarrow> string) \<Rightarrow> string \<Rightarrow> string \<Rightarrow> string \<Rightarrow> EntityType
     \<Rightarrow> (remote_state, unit) action" where
  "upload_entity_type environment uuid4 gcs_path featurestore_id entity_type_id entity_type =
     then_do (create_blob_object environment uuid4 gcs_path entity_type_id) (\<lambda>filepath.
       try_finally
         (then_do (upload_data_file environment uuid4 entity_type filepath)
            (\<lambda>entity_id_column_id.
               run_data_ingestion_job environment featurestore_id entity_type_id entity_type
                 filepath entity_id_column_id))
         (issue environment (Blob_delete filepath)))"

definition upload_data ::
  "env \<Rightarrow> (nat \<Rightarrow> string) \<Rightarrow> string \<Rightarrow> featurestores_data \<Rightarrow> (remote_state, unit) action" where
  "upload_data environment uuid4 gcs_path fss =
     for_each (\<lambda>(featurestore_id, featurestore).
       for_each (\<lambda>(entity_type_id, entity_type).
           upload_entity_type environment uuid4 gcs_path featurestore_id entity_type_id
             entity_type)
         (entity_types featurestore))
       fss"

text \<open>
  \<open>execute\<close>, on the rows that the reader yields for the import file: the warnings
  logged, the remote calls issued and the outcome of the run.
\<close>

definition execute ::
  "env \<Rightarrow> (nat \<Rightarrow> string) \<Rightarrow> string \<Rightarrow> string list list
     \<Rightarrow> warning list \<times> remote_state \<times> (exn + unit)" where
  "execute environment uuid4 gcs_path rows =
     (let st = parse_schema_and_data uuid4 rows;
          fss = featurestores st;
          s0 = \<lparr>calls = [], drawn = uuid_calls st\<rparr>
      in (warnings st,
          if fss \<noteq> []
          then then_do (issue environment Featurestore_client) (\<lambda>u.
                 then_do (create_schema environment fss) (\<lambda>u.
                   upload_data environment uuid4 gcs_path fss)) s0
          else (s0, Inr ())))"

section \<open>The exporter (data\_exporter.py)\<close>

record export_state = remote_state +
  entity_type_data :: EntityType

definition locate_folder_and_blob ::
  "env \<Rightarrow> (nat \<Rightarrow> string) \<Rightarrow> string \<Rightarrow> string \<Rightarrow> (export_state, string \<times> string) action" where
  "locate_folder_and_blob environment uuid4 gcs_path entity_type_id =
     then_do (uuid_suffix uuid4) (\<lambda>suffix.
       let unique_folder_path = path_join gcs_path (entity_type_id @ ''_'' @ suffix);
           filepath = path_join unique_folder_path ''000000000000.csv''
       in then_do (issue environment (Blob_object filepath))
            (\<lambda>u. ret (unique_folder_path, filepath)))"

definition export_entity_and_features ::
  "env \<Rightarrow> string \<Rightarrow> string \<Rightarrow> string \<Rightarrow> (export_state, unit) action" where
  "export_entity_and_features environment entity_type_name unique_folder_path filepath =
     then_do (issue environment (Export_feature_values entity_type_name unique_folder_path))
       (\<lambda>u. issue environment (Download_as_bytes filepath))"

text \<open>
  \<open>_process_data_line\<close>: the loop over the zipped header and row carries the entity
  identifier read so far and the entity type data.
\<close>

definition process_cell :: "string \<Rightarrow> string \<times> EntityType \<Rightarrow> string \<times> string \<Rightarrow> string \<times> EntityType" where
  "process_cell entity_type_id acc cell =
     (case acc of (entity_id, data) \<Rightarrow>
        case cell of (feature_name, feature_value) \<Rightarrow>
          if feature_name = ''entity_type_'' @ entity_type_id then (feature_value, data)
          else if feature_name = ''feature_timestamp'' then (entity_id, data)
          else (entity_id, set_value entity_id feature_name feature_value data))"

definition process_data_line ::
  "string \<Rightarrow> EntityType \<Rightarrow> string list \<Rightarrow> string list \<Rightarrow> EntityType" where
  "process_data_line entity_type_id data features_in_order feature_values =
     snd (foldl (process_cell entity_type_id) ([], data) (zip features_in_order feature_values))"

text \<open>
  \<open>_process_entities_and_features\<close>: the first row is the header. The rows are those
  the reader yields before it raises, if it does.
\<close>

definition process_rows :: "string \<Rightarrow> EntityType \<Rightarrow> string list list \<Rightarrow> EntityType" where
  "process_rows entity_type_id data rows =
     (case rows of
        [] \<Rightarrow> data
      | features_in_order # data_rows \<Rightarrow>
          foldl (\<lambda>d row. process_data_line entity_type_id d features_in_order row) data data_rows)"

definition process_entities_and_features ::
  "env \<Rightarrow> string \<Rightarrow> string \<Rightarrow> (export_state, unit) action" where
  "process_entities_and_features environment entity_type_id filepath s =
     issue environment (Csv_reader filepath)
       (s\<lparr>entity_type_data :=
            process_rows entity_type_id (entity_type_data s)
              (csv_rows environment (calls s) filepath)\<rparr>)"

definition export_entity_type_entity_data ::
  "env \<Rightarrow> (nat \<Rightarrow> string) \<Rightarrow> string \<Rightarrow> string \<Rightarrow> string \<Rightarrow> (export_state, unit) action" where
  "export_entity_type_entity_data environment uuid4 gcs_path entity_type_id entity_type_name =
     then_do (locate_folder_and_blob environment uuid4 gcs_path entity_type_id)
       (\<lambda>(unique_folder_path, filepath).
          try_finally
            (then_do
               (export_entity_and_features environment entity_type_name unique_folder_path
                  filepath)
               (\<lambda>u. process_entities_and_features environment entity_type_id filepath))
            (issue environment (Blob_delete filepath)))"

text \<open>
  \<open>_write_to_file\<close>: the rows handed to \<open>writerow\<close>, in order. The type token of a
  feature without recorded metadata is the name of the default that the \<open>defaultdict\<close>
  access creates.
\<close>

definition line_data ::
  "string \<Rightarrow> string \<Rightarrow> EntityType \<Rightarrow> string \<Rightarrow> string \<Rightarrow> Feature \<Rightarrow> string list" where
  "line_data featurestore_id entity_type_id entity_type entity_id feature_id feature =
     [''featurestores'', featurestore_id, ''entityTypes'', entity_type_id,
      ''entities'', entity_id, ''features'', feature_id, ''featureDataTypes'',
      name (data_type (dd_get FeatureMetadata_new (features_metadata entity_type) feature_id)),
      ''featureValues'', val feature]"

definition write_entity ::
  "string \<Rightarrow> string \<Rightarrow> EntityType \<Rightarrow> string \<times> Entity \<Rightarrow> string list list" where
  "write_entity featurestore_id entity_type_id entity_type ent =
     (case ent of (entity_id, entity) \<Rightarrow>
        map (\<lambda>(feature_id, feature).
               line_data featurestore_id entity_type_id entity_type entity_id feature_id feature)
          (features entity))"

definition write_entity_type :: "string \<Rightarrow> string \<times> EntityType \<Rightarrow> string list list" where
  "write_entity_type featurestore_id et =
     (case et of (entity_type_id, entity_type) \<Rightarrow>
        concat (map (write_entity featurestore_id entity_type_id entity_type)
                  (entities entity_type)))"

definition write_featurestore :: "string \<times> Featurestore \<Rightarrow> string list list" where
  "write_featurestore fs =
     (case fs of (featurestore_id, featurestore) \<Rightarrow>
        concat (map (write_entity_type featurestore_id) (entity_types featurestore)))"

definition write_to_file :: "featurestores_data \<Rightarrow> string list list" where
  "write_to_file featurestores_data = concat (map write_featurestore featurestores_data)"

text \<open>
  Modelled from the spec: the flat file has one record per line, fields separated by
  \<open>/\<close>. The text is produced by \<open>csv.writer(file, delimiter='/')\<close> of the Python
  standard library, which is not part of the source: a field that contains the
  delimiter, the quote character or a line break is written between double quotes with
  every quote doubled, and a row ends with carriage return and line feed.
\<close>

definition csv_special :: "char \<Rightarrow> bool" where
  "csv_special c \<longleftrightarrow> c = CHR ''/'' \<or> c = CHR 0x22 \<or> c = CHR 0x0D \<or> c = CHR 0x0A"

definition csv_field :: "string \<Rightarrow> string" where
  "csv_field s =
     (if list_ex csv_special s
      then [CHR 0x22] @ concat (map (\<lambda>c. if c = CHR 0x22 then [c, c] else [c]) s) @ [CHR 0x22]
      else s)"

definition csv_writerow :: "string list \<Rightarrow> string" where
  "csv_writerow row = join_slash (map csv_field row) @ [CHR 0x0D, CHR 0x0A]"

text \<open>Keys of a dictionary are unique; a model is well formed when this holds throughout.\<close>

definition wf_entity_type :: "EntityType \<Rightarrow> bool" where
  "wf_entity_type T \<longleftrightarrow>
     distinct (map fst (features_metadata T)) \<and> distinct (map fst (entities T)) \<and>
     list_all (\<lambda>(e, E). distinct (map fst (features E))) (entities T)"

definition wf_model :: "featurestores_data \<Rightarrow> bool" where
  "wf_model m \<longleftrightarrow>
     distinct (map fst m) \<and>
     list_all (\<lambda>(fs, F). distinct (map fst (entity_types F)) \<and>
                 list_all (\<lambda>(et, T). wf_entity_type T) (entity_types F)) m"

text \<open>The (featurestore, entity type, entity, feature) combinations, in iteration order.\<close>

definition combinations :: "featurestores_data \<Rightarrow> (string \<times> string \<times> string \<times> string) list" where
  "combinations m =
     concat (map (\<lambda>(fs, F).
       concat (map (\<lambda>(et, T).
         concat (map (\<lambda>(e, E). map (\<lambda>(f, x). (fs, et, e, f)) (features E)) (entities T)))
         (entity_types F))) m)"

definition row_key :: "string list \<Rightarrow> string \<times> string \<times> string \<times> string" where
  "row_key row = (row ! 1, row ! 3, row ! 5, row ! 7)"

section \<open>Example inputs\<close>

text \<open>The identifier and the rows that the tests of the importer use.\<close>

definition example_uuid4 :: "nat \<Rightarrow> string" where
  "example_uuid4 n = ''d3d75afa-a029-4842-9b77-f753661dd1f5''"

definition example_row :: "string list" where
  "example_row =
     [''featurestores'', ''benchmark_featurestore'', ''entityTypes'', ''human'',
      ''entities'', ''bob'', ''features'', ''height'', ''featureDataTypes'',
      ''int64'', ''featureValues'', ''4'']"

definition example_row_blank_labels :: "string list" where
  "example_row_blank_labels =
     ['''', ''benchmark_featurestore'', '''', ''human'',
      '''', ''bob'', '''', ''height'', '''',
      ''int64'', '''', ''4'']"

definition example_row_sally :: "string list" where
  "example_row_sally =
     [''featurestores'', ''benchmark_featurestore'', ''entityTypes'', ''human'',
      ''entities'', ''sally'', ''features'', ''height'', '''',
      '''', ''featureValues'', ''3'']"



definition example_uuid4_other :: "nat \<Rightarrow> string" where
  "example_uuid4_other n = ''7c9e6679-7425-40de-944b-e07fc1f90ae7''"

text \<open>
  Environments: one in which no call raises, and one in which the ingestion call raises
  (as in the test \<open>test_delete_blob_exception\<close>) and reading the staged CSV fails
  after a header and one row.
\<close>

definition example_env_ok :: env where
  "example_env_ok = \<lparr>raises = (\<lambda>tr c. None), csv_rows = (\<lambda>tr p. [])\<rparr>"

definition example_env_failing :: env where
  "example_env_failing =
     \<lparr>raises = (\<lambda>tr c. case c of
                  Import_feature_values a b p col fs \<Rightarrow> Some ''ow''
                | Csv_reader p \<Rightarrow> Some ''bad csv''
                | _ \<Rightarrow> None),
      csv_rows = (\<lambda>tr p. [[''entity_type_human'', ''height'', ''feature_timestamp''],
                          [''bob'', ''4'', ''2022-07-19'']])\<rparr>"

definition example_entity_type :: EntityType where
  "example_entity_type =
     \<lparr>features_metadata = [(''height'', \<lparr>data_type = INT64\<rparr>)],
      entities = [(''bob'', \<lparr>features = [(''height'', \<lparr>val = ''4''\<rparr>)]\<rparr>)]\<rparr>"

definition example_model :: featurestores_data where
  "example_model =
     [(''benchmark_featurestore_d3d75'', \<lparr>entity_types = [(''human'', example_entity_type)]\<rparr>)]"

text \<open>The model of the export example of the specification.\<close>

definition spec_example_model :: featurestores_data where
  "spec_example_model =
     [(''fs1'',
       \<lparr>entity_types =
          [(''pets'',
            \<lparr>features_metadata = [(''age'', \<lparr>data_type = INT64\<rparr>)],
             entities = [(''rex'', \<lparr>features = [(''age'', \<lparr>val = ''4''\<rparr>)]\<rparr>)]\<rparr>)]\<rparr>)]"

section \<open>Lemmas on the parser\<close>

lemma in_keys_iff: "k \<in> fst ` set d \<longleftrightarrow> map_of d k \<noteq> None"
  by (simp add: map_of_eq_None_iff)

lemma mapped_id_eq:
  "mapped_id uuid4 st fs =
     (case map_of (featurestore_id_map st) fs of
        Some m \<Rightarrow> m
      | None \<Rightarrow> fs @ ''_'' @ take 5 (uuid4 (uuid_calls st)))"
  by (auto simp: mapped_id_def map_featurestore_def Let_def dd_get_def update_conv'
      in_keys_iff split: option.splits)

lemma content_the_entity_type: "content m a b c d = et_content (the_entity_type m a b) c d"
  by (simp add: content_def the_entity_type_def dd_get_def et_content_def
      Featurestore_new_def EntityType_new_def split: option.splits)

lemma metadata_the_entity_type: "metadata m a b d = et_metadata (the_entity_type m a b) d"
  by (simp add: metadata_def the_entity_type_def dd_get_def et_metadata_def
      Featurestore_new_def EntityType_new_def split: option.splits)

lemma dd_get_touch: "dd_get dflt (dd_touch dflt k d) a = dd_get dflt d a"
  by (simp add: dd_get_def dd_touch_def map_add_def split: option.splits)

lemma the_entity_type_touch:
  "the_entity_type (dd_touch Featurestore_new k m) a b = the_entity_type m a b"
  by (simp add: the_entity_type_def dd_get_touch)

lemma dd_get_update: "dd_get dflt (AList.update k v d) a = (if a = k then v else dd_get dflt d a)"
  by (simp add: dd_get_def update_conv')

lemma the_entity_type_update:
  "the_entity_type
     (AList.update k ((dd_get Featurestore_new m k)
        \<lparr>entity_types := AList.update et T (entity_types (dd_get Featurestore_new m k))\<rparr>) m) a b =
   (if a = k \<and> b = et then T else the_entity_type m a b)"
  by (simp add: the_entity_type_def dd_get_update)

lemma store_values_eq:
  "store_values uuid4 st fs et e f dt v =
     (let k = mapped_id uuid4 st fs;
          st1 = snd (map_featurestore uuid4 st fs);
          F = dd_get Featurestore_new (featurestores st1) k;
          r = update_entity_type e f dt v (dd_get EntityType_new (entity_types F) et)
      in st1\<lparr>featurestores :=
               AList.update k (F\<lparr>entity_types := AList.update et (fst r) (entity_types F)\<rparr>)
                 (featurestores st1),
             warnings := warnings st1 @ snd r\<rparr>)"
  by (simp add: store_values_def mapped_id_def update_entity_type_def Let_def
      split: prod.splits)

lemma featurestores_map_featurestore:
  "featurestores (snd (map_featurestore uuid4 st fs)) =
     dd_touch Featurestore_new (mapped_id uuid4 st fs) (featurestores st)"
  by (simp add: map_featurestore_def mapped_id_def Let_def)

lemma warnings_map_featurestore:
  "warnings (snd (map_featurestore uuid4 st fs)) = warnings st"
  by (simp add: map_featurestore_def Let_def)

lemma the_entity_type_store_values:
  "the_entity_type (featurestores (store_values uuid4 st fs et e f dt v)) a b =
     (if a = mapped_id uuid4 st fs \<and> b = et
      then fst (update_entity_type e f dt v
                  (the_entity_type (featurestores st) (mapped_id uuid4 st fs) et))
      else the_entity_type (featurestores st) a b)"
proof -
  define k where "k = mapped_id uuid4 st fs"
  define m1 where "m1 = dd_touch Featurestore_new k (featurestores st)"
  have T: "dd_get EntityType_new (entity_types (dd_get Featurestore_new m1 k)) et =
           the_entity_type (featurestores st) k et"
    by (simp add: m1_def the_entity_type_def dd_get_touch)
  have "the_entity_type (featurestores (store_values uuid4 st fs et e f dt v)) a b =
        (if a = k \<and> b = et
         then fst (update_entity_type e f dt v (the_entity_type (featurestores st) k et))
         else the_entity_type m1 a b)"
    unfolding store_values_eq Let_def featurestores_map_featurestore k_def[symmetric]
      m1_def[symmetric]
    by (simp add: the_entity_type_update T)
  then show ?thesis
    by (simp add: k_def m1_def the_entity_type_touch)
qed

lemma warnings_store_values:
  "warnings (store_values uuid4 st fs et e f dt v) =
     warnings st @ snd (update_entity_type e f dt v
                  (the_entity_type (featurestores st) (mapped_id uuid4 st fs) et))"
  unfolding store_values_eq Let_def featurestores_map_featurestore
  by (simp add: warnings_map_featurestore the_entity_type_def dd_get_touch)

lemma et_content_set_value:
  "et_content (set_value e f v T) c d =
     (if c = e \<and> d = f then Some v else et_content T c d)"
  by (simp add: et_content_def set_value_def Let_def update_conv' dd_get_def
      Entity_new_def Feature_new_def split: option.splits)

lemma et_metadata_set_value: "et_metadata (set_value e f v T) d = et_metadata T d"
  by (simp add: et_metadata_def set_value_def Let_def)

lemma set_feature_metadata_known:
  "et_metadata T f \<noteq> None \<Longrightarrow> set_feature_metadata f dt T = (True, T, [])"
  by (simp add: set_feature_metadata_def in_keys_iff et_metadata_def)

lemma set_feature_metadata_unknown:
  "et_metadata T f = None \<Longrightarrow>
   set_feature_metadata f dt T =
     (case ValueType_getitem (upper dt) of
        None \<Rightarrow> (False, T, [Unknown_datatype (upper dt)])
      | Some t \<Rightarrow>
          if is_array_type t then (False, T, [Array_not_supported])
          else (True, T\<lparr>features_metadata :=
                  AList.update f \<lparr>data_type = t\<rparr> (features_metadata T)\<rparr>, []))"
  by (simp add: set_feature_metadata_def in_keys_iff et_metadata_def dd_get_def
      FeatureMetadata_new_def split: option.splits)

lemma et_content_update_entity_type:
  "et_content (fst (update_entity_type e f dt v T)) c d =
     (if (et_metadata T f \<noteq> None \<or> scalar_token dt) \<and> c = e \<and> d = f
      then Some v else et_content T c d)"
proof (cases "et_metadata T f = None")
  case True
  have *: "et_content (T\<lparr>features_metadata := x\<rparr>) c d = et_content T c d" for x
    by (simp add: et_content_def)
  show ?thesis
    using True
    by (simp add: update_entity_type_def set_feature_metadata_unknown[OF True] scalar_token_def
        et_content_set_value * split: option.splits)
next
  case False
  then show ?thesis
    by (simp add: update_entity_type_def set_feature_metadata_known et_content_set_value)
qed

lemma et_metadata_update_entity_type:
  "et_metadata (fst (update_entity_type e f dt v T)) d =
     (if d = f \<and> et_metadata T f = None \<and> scalar_token dt
      then ValueType_getitem (upper dt) else et_metadata T d)"
proof (cases "et_metadata T f = None")
  case True
  have *: "et_metadata (T\<lparr>features_metadata := AList.update f \<lparr>data_type = t\<rparr> (features_metadata T)\<rparr>) d'
       = (if d' = f then Some t else et_metadata T d')" for t d'
    by (simp add: et_metadata_def update_conv')
  show ?thesis
    using True
    by (simp add: update_entity_type_def set_feature_metadata_unknown[OF True] scalar_token_def
        et_metadata_set_value * split: option.splits)
next
  case False
  then show ?thesis
    by (auto simp add: update_entity_type_def set_feature_metadata_known et_metadata_set_value)
qed

lemma warnings_update_entity_type:
  "snd (update_entity_type e f dt v T) =
     (if et_metadata T f \<noteq> None then []
      else case ValueType_getitem (upper dt) of
             None \<Rightarrow> [Unknown_datatype (upper dt)]
           | Some t \<Rightarrow> if is_array_type t then [Array_not_supported] else [])"
proof (cases "et_metadata T f = None")
  case True
  show ?thesis
    using True
    by (simp add: update_entity_type_def set_feature_metadata_unknown[OF True]
        split: option.splits)
next
  case False
  then show ?thesis
    by (simp add: update_entity_type_def set_feature_metadata_known)
qed

lemma content_store_values:
  "content (featurestores (store_values uuid4 st fs et e f dt v)) a b c d =
     (if (metadata (featurestores st) (mapped_id uuid4 st fs) et f \<noteq> None \<or> scalar_token dt)
         \<and> a = mapped_id uuid4 st fs \<and> b = et \<and> c = e \<and> d = f
      then Some v else content (featurestores st) a b c d)"
  by (auto simp add: content_the_entity_type metadata_the_entity_type the_entity_type_store_values
      et_content_update_entity_type)

lemma metadata_store_values:
  "metadata (featurestores (store_values uuid4 st fs et e f dt v)) a b d =
     (if a = mapped_id uuid4 st fs \<and> b = et \<and> d = f
         \<and> metadata (featurestores st) a b d = None \<and> scalar_token dt
      then ValueType_getitem (upper dt) else metadata (featurestores st) a b d)"
  by (auto simp add: metadata_the_entity_type the_entity_type_store_values
      et_metadata_update_entity_type)

lemma warnings_store_values':
  "warnings (store_values uuid4 st fs et e f dt v) =
     warnings st @
     (if metadata (featurestores st) (mapped_id uuid4 st fs) et f \<noteq> None then []
      else case ValueType_getitem (upper dt) of
             None \<Rightarrow> [Unknown_datatype (upper dt)]
           | Some t \<Rightarrow> if is_array_type t then [Array_not_supported] else [])"
  by (simp add: warnings_store_values warnings_update_entity_type metadata_the_entity_type)

lemma parse_row_wellformed:
  "length row = 12 \<Longrightarrow>
   parse_row uuid4 st row =
     store_values uuid4 st (row ! 1) (row ! 3) (row ! 5) (row ! 7) (row ! 9) (row ! 11)"
  by (simp add: parse_row_def parse_values_def)

lemma parse_row_malformed:
  "length row \<noteq> 12 \<Longrightarrow>
   parse_row uuid4 st row = st\<lparr>warnings := warnings st @ [Failed_to_parse (join_slash row)]\<rparr>"
  by (simp add: parse_row_def parse_values_def)

lemma parse_rows_Nil: "parse_rows uuid4 st [] = st"
  by (simp add: parse_rows_def)

lemma parse_rows_Cons: "parse_rows uuid4 st (r # rs) = parse_rows uuid4 (parse_row uuid4 st r) rs"
  by (simp add: parse_rows_def)

lemma parse_rows_append:
  "parse_rows uuid4 st (xs @ ys) = parse_rows uuid4 (parse_rows uuid4 st xs) ys"
  by (simp add: parse_rows_def)

lemma update_new_key: "k \<notin> fst ` set al \<Longrightarrow> AList.update k v al = al @ [(k, v)]"
  by (induction al) auto

lemma id_map_map_featurestore:
  "featurestore_id_map (snd (map_featurestore uuid4 st fs)) =
     (if fs \<in> fst ` set (featurestore_id_map st) then featurestore_id_map st
      else featurestore_id_map st @ [(fs, fs @ ''_'' @ take 5 (uuid4 (uuid_calls st)))])"
  by (simp add: map_featurestore_def Let_def update_new_key)

lemma uuid_calls_map_featurestore:
  "uuid_calls (snd (map_featurestore uuid4 st fs)) =
     (if fs \<in> fst ` set (featurestore_id_map st) then uuid_calls st else Suc (uuid_calls st))"
  by (simp add: map_featurestore_def Let_def)

lemma id_map_store_values:
  "featurestore_id_map (store_values uuid4 st fs et e f dt v) =
     (if fs \<in> fst ` set (featurestore_id_map st) then featurestore_id_map st
      else featurestore_id_map st @ [(fs, fs @ ''_'' @ take 5 (uuid4 (uuid_calls st)))])"
  unfolding store_values_eq Let_def
  by (simp add: id_map_map_featurestore)

lemma uuid_calls_store_values:
  "uuid_calls (store_values uuid4 st fs et e f dt v) =
     (if fs \<in> fst ` set (featurestore_id_map st) then uuid_calls st else Suc (uuid_calls st))"
  unfolding store_values_eq Let_def
  by (simp add: uuid_calls_map_featurestore)

lemma map_featurestore_warnings_update:
  "map_featurestore uuid4 (st\<lparr>warnings := w\<rparr>) fs =
     (fst (map_featurestore uuid4 st fs), (snd (map_featurestore uuid4 st fs))\<lparr>warnings := w\<rparr>)"
  by (simp add: map_featurestore_def Let_def)

lemma store_values_warnings_update:
  "store_values uuid4 (st\<lparr>warnings := w\<rparr>) fs et e f dt v =
     (store_values uuid4 st fs et e f dt v)
       \<lparr>warnings := w @ snd (update_entity_type e f dt v
                  (the_entity_type (featurestores st) (mapped_id uuid4 st fs) et))\<rparr>"
  unfolding store_values_eq Let_def
  by (simp add: mapped_id_def map_featurestore_warnings_update the_entity_type_def
      featurestores_map_featurestore dd_get_touch)

lemma parse_row_warnings_update:
  "\<exists>ws. \<forall>w. parse_row uuid4 (st\<lparr>warnings := w\<rparr>) row = (parse_row uuid4 st row)\<lparr>warnings := w @ ws\<rparr>"
proof (cases "length row = 12")
  case True
  then show ?thesis
    by (simp add: parse_row_wellformed store_values_warnings_update) blast
next
  case False
  then have "\<forall>w. parse_row uuid4 (st\<lparr>warnings := w\<rparr>) row =
      (parse_row uuid4 st row)\<lparr>warnings := w @ [Failed_to_parse (join_slash row)]\<rparr>"
    by (simp add: parse_row_malformed)
  then show ?thesis by blast
qed

lemma parse_rows_warnings_update:
  "\<exists>ws. \<forall>w. parse_rows uuid4 (st\<lparr>warnings := w\<rparr>) rows =
             (parse_rows uuid4 st rows)\<lparr>warnings := w @ ws\<rparr>"
proof (induction rows arbitrary: st)
  case Nil
  have "\<forall>w. parse_rows uuid4 (st\<lparr>warnings := w\<rparr>) [] = (parse_rows uuid4 st [])\<lparr>warnings := w @ []\<rparr>"
    by (simp add: parse_rows_Nil)
  then show ?case by blast
next
  case (Cons r rs)
  obtain ws1 where 1:
    "\<And>w. parse_row uuid4 (st\<lparr>warnings := w\<rparr>) r = (parse_row uuid4 st r)\<lparr>warnings := w @ ws1\<rparr>"
    using parse_row_warnings_update by blast
  obtain ws2 where 2:
    "\<And>w. parse_rows uuid4 ((parse_row uuid4 st r)\<lparr>warnings := w\<rparr>) rs =
          (parse_rows uuid4 (parse_row uuid4 st r) rs)\<lparr>warnings := w @ ws2\<rparr>"
    using Cons.IH by blast
  have "\<forall>w. parse_rows uuid4 (st\<lparr>warnings := w\<rparr>) (r # rs) =
             (parse_rows uuid4 st (r # rs))\<lparr>warnings := w @ (ws1 @ ws2)\<rparr>"
    by (simp add: parse_rows_Cons 1 2)
  then show ?case by blast
qed

lemma map_of_snoc:
  "([k \<mapsto> v] ++ m) a =
     (case m a of Some x \<Rightarrow> Some x | None \<Rightarrow> if a = k then Some v else None)"
  by (simp add: map_add_def split: option.splits)



lemma id_map_parse_row_stable:
  "map_of (featurestore_id_map st) fs = Some k \<Longrightarrow>
   map_of (featurestore_id_map (parse_row uuid4 st row)) fs = Some k"
  by (cases "length row = 12")
     (simp_all add: parse_row_wellformed parse_row_malformed id_map_store_values map_of_snoc)

lemma id_map_parse_rows_stable:
  "map_of (featurestore_id_map st) fs = Some k \<Longrightarrow>
   map_of (featurestore_id_map (parse_rows uuid4 st rows)) fs = Some k"
  by (induction rows arbitrary: st)
     (simp_all add: parse_rows_Nil parse_rows_Cons id_map_parse_row_stable)

lemma id_map_first_reference:
  "map_of (featurestore_id_map st) fs = None \<Longrightarrow>
   map_of (featurestore_id_map (store_values uuid4 st fs et e f dt v)) fs =
     Some (fs @ ''_'' @ take 5 (uuid4 (uuid_calls st)))"
  by (simp add: id_map_store_values in_keys_iff map_of_snoc)

lemma mapped_id_known:
  "map_of (featurestore_id_map st) fs = Some k \<Longrightarrow> mapped_id uuid4 st fs = k"
  by (simp add: mapped_id_eq)

lemma mapped_id_after_store:
  "mapped_id uuid4 (store_values uuid4 st fs et e f dt v) fs = mapped_id uuid4 st fs"
  by (cases "map_of (featurestore_id_map st) fs")
     (simp_all add: mapped_id_eq id_map_store_values in_keys_iff map_of_snoc)




lemma getitem_empty: "ValueType_getitem (upper []) = None"
  by (simp add: upper_def ValueType_getitem_def)

lemma example_mapped_id:
  "mapped_id example_uuid4 parse_state_init fs = fs @ ''_d3d75''"
  by (simp add: mapped_id_eq parse_state_init_def example_uuid4_def)

lemma example_no_metadata: "metadata (featurestores parse_state_init) a b d = None"
  by (simp add: metadata_def parse_state_init_def)

lemma example_no_content: "content (featurestores parse_state_init) a b c d = None"
  by (simp add: content_def parse_state_init_def)

lemma remap_table_snoc:
  "remap_table uuid4 (ids @ [fs]) =
     remap_table uuid4 ids @ [(fs, fs @ ''_'' @ take 5 (uuid4 (length ids)))]"
  by (simp add: remap_table_def enumerate_append_eq)

lemma map_fst_remap_table: "map fst (remap_table uuid4 ids) = ids"
  by (simp add: remap_table_def map_idI split_def comp_def)

lemma id_map_inv_store_values:
  assumes "uuid_calls st = length (featurestore_id_map st)"
    and "featurestore_id_map st = remap_table uuid4 (map fst (featurestore_id_map st))"
  shows "uuid_calls (store_values uuid4 st fs et e f dt v) =
           length (featurestore_id_map (store_values uuid4 st fs et e f dt v))
       \<and> featurestore_id_map (store_values uuid4 st fs et e f dt v) =
           remap_table uuid4 (map fst (featurestore_id_map (store_values uuid4 st fs et e f dt v)))"
proof (cases "fs \<in> fst ` set (featurestore_id_map st)")
  case True
  then show ?thesis
    using assms by (simp add: id_map_store_values uuid_calls_store_values)
next
  case False
  have "remap_table uuid4 (map fst (featurestore_id_map st) @ [fs]) =
      featurestore_id_map st @ [(fs, fs @ ''_'' @ take 5 (uuid4 (uuid_calls st)))]"
    using assms by (simp add: remap_table_snoc)
  then show ?thesis
    using False assms(1) by (simp add: id_map_store_values uuid_calls_store_values)
qed

lemma id_map_inv_parse_row:
  assumes "uuid_calls st = length (featurestore_id_map st)"
    and "featurestore_id_map st = remap_table uuid4 (map fst (featurestore_id_map st))"
  shows "uuid_calls (parse_row uuid4 st row) = length (featurestore_id_map (parse_row uuid4 st row))
       \<and> featurestore_id_map (parse_row uuid4 st row) =
           remap_table uuid4 (map fst (featurestore_id_map (parse_row uuid4 st row)))"
proof (cases "length row = 12")
  case True
  then show ?thesis
    using id_map_inv_store_values[OF assms] by (simp add: parse_row_wellformed)
next
  case False
  then show ?thesis
    using assms by (simp add: parse_row_malformed)
qed

lemma id_map_inv_parse_rows:
  assumes "uuid_calls st = length (featurestore_id_map st)"
    and "featurestore_id_map st = remap_table uuid4 (map fst (featurestore_id_map st))"
  shows "uuid_calls (parse_rows uuid4 st rows) = length (featurestore_id_map (parse_rows uuid4 st rows))
       \<and> featurestore_id_map (parse_rows uuid4 st rows) =
           remap_table uuid4 (map fst (featurestore_id_map (parse_rows uuid4 st rows)))"
  using assms
proof (induction rows arbitrary: st)
  case Nil
  then show ?case by (simp add: parse_rows_Nil)
next
  case (Cons r rs)
  show ?case
    unfolding parse_rows_Cons
    using id_map_inv_parse_row[OF Cons.prems] by (intro Cons.IH) simp_all
qed

lemma id_map_parse_schema_and_data:
  "featurestore_id_map (parse_schema_and_data uuid4 rows) =
     remap_table uuid4 (map fst (featurestore_id_map (parse_schema_and_data uuid4 rows)))"
proof -
  have "uuid_calls parse_state_init = length (featurestore_id_map parse_state_init)"
    "featurestore_id_map parse_state_init =
       remap_table uuid4 (map fst (featurestore_id_map parse_state_init))"
    by (simp_all add: parse_state_init_def remap_table_def)
  from id_map_inv_parse_rows[OF this] show ?thesis
    by (simp add: parse_schema_and_data_def)
qed

lemma id_map_keys_parse_row:
  "map fst (featurestore_id_map st1) = map fst (featurestore_id_map st2) \<Longrightarrow>
   map fst (featurestore_id_map (parse_row uuid4 st1 row)) =
   map fst (featurestore_id_map (parse_row uuid4' st2 row))"
proof (cases "length row = 12")
  case True
  assume "map fst (featurestore_id_map st1) = map fst (featurestore_id_map st2)"
  moreover from this have "fst ` set (featurestore_id_map st1) = fst ` set (featurestore_id_map st2)"
    by (metis set_map)
  ultimately show ?thesis
    using True by (simp add: parse_row_wellformed id_map_store_values)
next
  case False
  assume "map fst (featurestore_id_map st1) = map fst (featurestore_id_map st2)"
  then show ?thesis
    using False by (simp add: parse_row_malformed)
qed

lemma id_map_keys_parse_rows:
  "map fst (featurestore_id_map st1) = map fst (featurestore_id_map st2) \<Longrightarrow>
   map fst (featurestore_id_map (parse_rows uuid4 st1 rows)) =
   map fst (featurestore_id_map (parse_rows uuid4' st2 rows))"
proof (induction rows arbitrary: st1 st2)
  case Nil
  then show ?case by (simp add: parse_rows_Nil)
next
  case (Cons r rs)
  show ?case
    unfolding parse_rows_Cons
    by (rule Cons.IH) (rule id_map_keys_parse_row[OF Cons.prems])
qed

lemma map_of_enumerate_same_draw:
  "map_of (map (\<lambda>(n, fs). (fs, g n fs)) (enumerate m ids)) fs = Some a \<Longrightarrow>
   map_of (map (\<lambda>(n, fs). (fs, g' n fs)) (enumerate m ids)) fs = Some b \<Longrightarrow>
   \<exists>n. a = g n fs \<and> b = g' n fs"
proof (induction ids arbitrary: m)
  case Nil
  then show ?case by simp
next
  case (Cons x xs)
  then show ?case
    by (cases "x = fs") auto
qed

lemma remap_table_same_draw:
  "map_of (remap_table uuid4 ids) fs = Some a \<Longrightarrow>
   map_of (remap_table uuid4' ids) fs = Some b \<Longrightarrow>
   \<exists>n. a = fs @ ''_'' @ take 5 (uuid4 n) \<and> b = fs @ ''_'' @ take 5 (uuid4' n)"
  unfolding remap_table_def
  by (rule map_of_enumerate_same_draw)

section \<open>Lemmas on remote steps\<close>

lemma raised_append: "raised (xs @ ys) = raised xs @ raised ys"
  by (simp add: raised_def map_filter_def)

lemma raised_Nil: "raised [] = []"
  by (simp add: raised_def map_filter_def)

lemma raised_single: "raised [(c, x)] = (case x of None \<Rightarrow> [] | Some e \<Rightarrow> [e])"
  by (simp add: raised_def map_filter_def split: option.splits)

lemma deletions_append: "deletions p (xs @ ys) = deletions p xs + deletions p ys"
  by (simp add: deletions_def)

lemma creations_append: "creations p (xs @ ys) = creations p xs + creations p ys"
  by (simp add: creations_def)


lemma raised_Cons:
  "raised (x # xs) = (case snd x of None \<Rightarrow> raised xs | Some e \<Rightarrow> e # raised xs)"
  by (simp add: raised_def map_filter_def split: option.splits)

lemma plainI:
  assumes "\<And>s. calls (fst (act s)) = calls s @ new s
        \<and> (\<forall>p. deletions p (new s) = 0 \<and> creations p (new s) = 0) \<and> agrees (snd (act s)) (new s)"
  shows "plain act"
  unfolding plain_def using assms by blast



lemma plain_issue:
  assumes "\<And>p. c \<noteq> Blob_object p" and "\<And>p. c \<noteq> Blob_delete p"
  shows "plain (issue environment c)"
  by (rule plainI[where new = "\<lambda>s. [(c, raises environment (calls s) c)]"])
     (simp add: issue_def deletions_def creations_def agrees_def raised_single assms
        split: option.splits)

lemma plain_then_do:
  assumes m: "plain m" and k: "\<And>a. plain (k a)"
  shows "plain (then_do m k)"
  unfolding plain_def
proof
  fix s
  obtain s1 r1 where ms: "m s = (s1, r1)" by (cases "m s")
  obtain new1 where n1: "calls s1 = calls s @ new1"
    "\<forall>p. deletions p new1 = 0 \<and> creations p new1 = 0" "agrees r1 new1"
    using m ms unfolding plain_def by (metis fst_conv snd_conv)
  show "\<exists>new. calls (fst (then_do m k s)) = calls s @ new
        \<and> (\<forall>p. deletions p new = 0 \<and> creations p new = 0) \<and> agrees (snd (then_do m k s)) new"
  proof (cases r1)
    case (Inl e)
    then have "calls (fst (then_do m k s)) = calls s @ new1
        \<and> (\<forall>p. deletions p new1 = 0 \<and> creations p new1 = 0)
        \<and> agrees (snd (then_do m k s)) new1"
      using ms n1 by (simp add: then_do_def agrees_def)
    then show ?thesis by blast
  next
    case (Inr a)
    then have r0: "raised new1 = []"
      using n1(3) by (simp add: agrees_def)
    obtain new2 where n2: "calls (fst (k a s1)) = calls s1 @ new2"
      "\<forall>p. deletions p new2 = 0 \<and> creations p new2 = 0" "agrees (snd (k a s1)) new2"
      using k[of a] unfolding plain_def by blast
    have "calls (fst (then_do m k s)) = calls s @ (new1 @ new2)
        \<and> (\<forall>p. deletions p (new1 @ new2) = 0 \<and> creations p (new1 @ new2) = 0)
        \<and> agrees (snd (then_do m k s)) (new1 @ new2)"
      using ms Inr n1 n2 r0
      by (simp add: then_do_def deletions_append creations_append agrees_def raised_append
          split: sum.splits)
    then show ?thesis by blast
  qed
qed

lemma agrees_unit: "agrees (r :: exn + unit) new \<longleftrightarrow> r = outcome new"
  by (cases r) (auto simp add: agrees_def outcome_def)

text \<open>The scoped pattern: obtain a blob handle, run a plain body, delete the blob.\<close>

lemma scoped_run:
  fixes body :: "'r \<Rightarrow> ('s remote_state_scheme, unit) action"
    and s :: "'s remote_state_scheme"
  assumes body: "\<And>r. plain (body r)"
    and blob: "\<And>suffix. blob (res suffix) = path suffix"
    and act: "act = then_do
           (then_do (uuid_suffix uuid4) (\<lambda>suffix.
              then_do (issue environment (Blob_object (path suffix))) (\<lambda>u. ret (res suffix))))
           (\<lambda>r. try_finally (body r) (issue environment (Blob_delete (blob r))))"
    and p: "p = path (take 5 (uuid4 (drawn s)))"
  shows "case raises environment (calls s) (Blob_object p) of
           Some e \<Rightarrow> calls (fst (act s)) = calls s @ [(Blob_object p, Some e)] \<and> snd (act s) = Inl e
         | None \<Rightarrow>
             (\<exists>nb x. calls (fst (act s)) = calls s @ (Blob_object p, None) # nb @ [(Blob_delete p, x)]
                \<and> (\<forall>q. deletions q nb = 0 \<and> creations q nb = 0)
                \<and> snd (act s) = (case x of Some e \<Rightarrow> Inl e | None \<Rightarrow> outcome nb))"
proof -
  define sfx where "sfx = take 5 (uuid4 (drawn s))"
  define s0 where "s0 = s\<lparr>drawn := Suc (drawn s)\<rparr>"
  define x0 where "x0 = raises environment (calls s) (Blob_object p)"
  define s1 where "s1 = s0\<lparr>calls := calls s @ [(Blob_object p, x0)]\<rparr>"
  have psfx: "path sfx = p"
    by (simp add: p sfx_def)
  have create: "then_do (uuid_suffix uuid4) (\<lambda>suffix.
              then_do (issue environment (Blob_object (path suffix))) (\<lambda>u. ret (res suffix))) s =
        (s1, case x0 of None \<Rightarrow> Inr (res sfx) | Some e \<Rightarrow> Inl e)"
    by (simp add: then_do_def uuid_suffix_def issue_def ret_def s1_def s0_def x0_def p sfx_def
        split: option.splits)
  show ?thesis
  proof (cases x0)
    case (Some e)
    have "act s = (s1, Inl e)"
      unfolding act by (subst then_do_def) (simp add: create Some)
    then show ?thesis
      using Some by (simp add: s1_def s0_def x0_def[symmetric])
  next
    case None
    obtain s2 r2 where b: "body (res sfx) s1 = (s2, r2)" by (cases "body (res sfx) s1")
    obtain nb where nb: "calls s2 = calls s1 @ nb"
      "\<forall>q. deletions q nb = 0 \<and> creations q nb = 0" "agrees r2 nb"
      using body[of "res sfx"] b unfolding plain_def by (metis fst_conv snd_conv)
    define x3 where "x3 = raises environment (calls s2) (Blob_delete p)"
    define s3 where "s3 = s2\<lparr>calls := calls s2 @ [(Blob_delete p, x3)]\<rparr>"
    have fin: "issue environment (Blob_delete p) s2 =
        (s3, case x3 of None \<Rightarrow> Inr () | Some e \<Rightarrow> Inl e)"
      by (simp add: issue_def s3_def x3_def)
    have run: "act s = (s3, case x3 of None \<Rightarrow> r2 | Some e \<Rightarrow> Inl e)"
      unfolding act
      by (subst then_do_def)
         (simp add: create None try_finally_def b blob psfx fin split: option.splits)
    have r2: "r2 = outcome nb"
      using nb(3) by (simp add: agrees_unit)
    have "calls (fst (act s)) = calls s @ (Blob_object p, None) # nb @ [(Blob_delete p, x3)]
        \<and> (\<forall>q. deletions q nb = 0 \<and> creations q nb = 0)
        \<and> snd (act s) = (case x3 of Some e \<Rightarrow> Inl e | None \<Rightarrow> outcome nb)"
      using nb(2) by (simp add: run s3_def nb(1) s1_def s0_def None r2 split: option.splits)
    then show ?thesis
      using None unfolding x0_def by (simp only: option.case) blast
  qed
qed

lemma tidy_scoped:
  fixes body :: "'r \<Rightarrow> ('s remote_state_scheme, unit) action"
  assumes body: "\<And>r. plain (body r)"
    and blob: "\<And>suffix. blob (res suffix) = path suffix"
  shows "tidy (then_do
           (then_do (uuid_suffix uuid4) (\<lambda>suffix.
              then_do (issue environment (Blob_object (path suffix))) (\<lambda>u. ret (res suffix))))
           (\<lambda>r. try_finally (body r) (issue environment (Blob_delete (blob r)))))"
  unfolding tidy_def
proof
  fix s :: "'s remote_state_scheme"
  define act where "act = then_do
           (then_do (uuid_suffix uuid4) (\<lambda>suffix.
              then_do (issue environment (Blob_object (path suffix))) (\<lambda>u. ret (res suffix))))
           (\<lambda>r. try_finally (body r) (issue environment (Blob_delete (blob r))))"
  define p where "p = path (take 5 (uuid4 (drawn s)))"
  note run = scoped_run[OF body blob act_def p_def]
  show "\<exists>new. calls (fst (act s)) = calls s @ new
        \<and> (\<forall>q. deletions q new = creations q new) \<and> snd (act s) = outcome new"
  proof (cases "raises environment (calls s) (Blob_object p)")
    case (Some e)
    then have "calls (fst (act s)) = calls s @ [(Blob_object p, Some e)]
        \<and> (\<forall>q. deletions q [(Blob_object p, Some e)] = creations q [(Blob_object p, Some e)])
        \<and> snd (act s) = outcome [(Blob_object p, Some e)]"
      using run by (simp add: deletions_def creations_def outcome_def raised_single)
    then show ?thesis by blast
  next
    case None
    then obtain nb x where nb:
      "calls (fst (act s)) = calls s @ (Blob_object p, None) # nb @ [(Blob_delete p, x)]"
      "\<forall>q. deletions q nb = 0 \<and> creations q nb = 0"
      "snd (act s) = (case x of Some e \<Rightarrow> Inl e | None \<Rightarrow> outcome nb)"
      using run by auto
    define new where "new = (Blob_object p, None :: exn option) # nb @ [(Blob_delete p, x)]"
    have d: "deletions q new = creations q new" for q
      using nb(2) by (simp add: new_def deletions_def creations_def)
    have o: "snd (act s) = outcome new"
      by (cases x)
         (simp_all add: nb(3) new_def outcome_def raised_append raised_single raised_Cons
            raised_Nil)
    from nb(1) d o show ?thesis unfolding new_def by blast
  qed
qed



lemma plain_process_entities_and_features:
  "plain (process_entities_and_features environment et filepath)"
  by (rule plainI[where new = "\<lambda>s. [(Csv_reader filepath,
        raises environment (calls s) (Csv_reader filepath))]"])
     (simp add: process_entities_and_features_def issue_def deletions_def creations_def
        agrees_def raised_single split: option.splits)

lemma tidy_export_entity_type_entity_data:
  "tidy (export_entity_type_entity_data environment uuid4 gcs_path et et_name)"
  unfolding export_entity_type_entity_data_def locate_folder_and_blob_def Let_def split_def
  by (rule tidy_scoped[where blob = snd])
     (simp_all add: export_entity_and_features_def
        plain_then_do plain_issue plain_process_entities_and_features)







lemma parse_rows_all_malformed:
  "\<forall>row \<in> set rows. length row \<noteq> 12 \<Longrightarrow>
   parse_rows uuid4 st rows =
     st\<lparr>warnings := warnings st @ map (\<lambda>row. Failed_to_parse (join_slash row)) rows\<rparr>"
  by (induction rows arbitrary: st)
     (simp_all add: parse_rows_Nil parse_rows_Cons parse_row_malformed)

lemma example_parse:
  "parse_schema_and_data example_uuid4 [example_row] =
     \<lparr>featurestores = example_model,
      featurestore_id_map = [(''benchmark_featurestore'', ''benchmark_featurestore_d3d75'')],
      uuid_calls = 1, warnings = []\<rparr>"
  by (simp add: parse_schema_and_data_def parse_rows_def example_row_def parse_row_def
      parse_values_def store_values_def map_featurestore_def parse_state_init_def
      set_feature_metadata_def dd_get_def dd_touch_def example_uuid4_def upper_def upper_char_def
      ValueType_getitem_def is_array_type_def set_value_def Featurestore_new_def EntityType_new_def
      Entity_new_def Feature_new_def FeatureMetadata_new_def example_model_def Let_def
      example_entity_type_def)

lemma example_execute:
  "execute example_env_ok example_uuid4 ''gs://scratch_space/some/path'' [example_row] =
     ([],
      \<lparr>calls =
         [(Featurestore_client, None),
          (Create_featurestore ''benchmark_featurestore_d3d75'', None),
          (Create_entity_type ''benchmark_featurestore_d3d75'' ''human'', None),
          (Batch_create_features ''benchmark_featurestore_d3d75'' ''human'' [(''height'', INT64)],
           None),
          (Blob_object ''gs://scratch_space/some/path/human_d3d75.csv'', None),
          (Upload_from_file ''gs://scratch_space/some/path/human_d3d75.csv''
             [[''entity_id_d3d75'', ''height''], [''bob'', ''4'']], None),
          (Import_feature_values ''benchmark_featurestore_d3d75'' ''human''
             ''gs://scratch_space/some/path/human_d3d75.csv'' ''entity_id_d3d75'' [''height''],
           None),
          (Blob_delete ''gs://scratch_space/some/path/human_d3d75.csv'', None)],
       drawn = 3\<rparr>,
      Inr ())"
proof -
  have r: "raises example_env_ok tr c = None" for tr c
    by (simp add: example_env_ok_def)
  have m: "example_model \<noteq> []"
    by (simp add: example_model_def)
  show ?thesis
    unfolding execute_def example_parse Let_def
    by (simp add: m)
       (simp add: example_model_def example_entity_type_def create_schema_def create_features_def
        upload_data_def upload_entity_type_def create_blob_object_def upload_data_file_def
        run_data_ingestion_job_def then_do_def try_finally_def issue_def uuid_suffix_def ret_def
        Let_def path_join_def r example_uuid4_def write_header_def write_row_def dd_get_def
        eval_nat_numeral)
qed

section \<open>Lemmas on the exporter\<close>

lemma row_key_line_data: "row_key (line_data fs et T e f x) = (fs, et, e, f)"
  by (simp add: row_key_def line_data_def)

lemma in_write_to_file:
  "row \<in> set (write_to_file m) \<longleftrightarrow>
     (\<exists>fs F et T e E f x. (fs, F) \<in> set m \<and> (et, T) \<in> set (entity_types F)
        \<and> (e, E) \<in> set (entities T) \<and> (f, x) \<in> set (features E)
        \<and> row = line_data fs et T e f x)"
  by (auto simp add: write_to_file_def write_featurestore_def write_entity_type_def
      write_entity_def) blast+

lemma row_keys_write_to_file: "map row_key (write_to_file m) = combinations m"
  by (simp add: write_to_file_def write_featurestore_def write_entity_type_def
      write_entity_def combinations_def map_concat comp_def split_def row_key_line_data)

lemma distinct_concat_keyed:
  assumes "distinct (map fst al)"
    and "\<And>k v. (k, v) \<in> set al \<Longrightarrow> distinct (g k v)"
    and "\<And>k v x. (k, v) \<in> set al \<Longrightarrow> x \<in> set (g k v) \<Longrightarrow> key x = k"
  shows "distinct (concat (map (\<lambda>(k, v). g k v) al))"
  using assms
proof (induction al)
  case Nil
  then show ?case by simp
next
  case (Cons a al)
  obtain k v where a: "a = (k, v)" by (cases a)
  have 1: "distinct (g k v)"
    using Cons.prems(2) a by simp
  have 2: "distinct (concat (map (\<lambda>(k, v). g k v) al))"
  proof (rule Cons.IH)
    show "distinct (map fst al)" using Cons.prems(1) by simp
    show "\<And>k v. (k, v) \<in> set al \<Longrightarrow> distinct (g k v)"
      using Cons.prems(2) by simp
    show "\<And>k v x. (k, v) \<in> set al \<Longrightarrow> x \<in> set (g k v) \<Longrightarrow> key x = k"
      using Cons.prems(3) by (meson list.set_intros(2))
  qed
  have 3: "set (g k v) \<inter> set (concat (map (\<lambda>(k, v). g k v) al)) = {}"
  proof (rule ccontr)
    assume "set (g k v) \<inter> set (concat (map (\<lambda>(k, v). g k v) al)) \<noteq> {}"
    then obtain x k' v' where x: "x \<in> set (g k v)" "(k', v') \<in> set al" "x \<in> set (g k' v')"
      by auto
    have "key x = k" using Cons.prems(3)[of k v x] a x(1) by simp
    moreover have "key x = k'" using Cons.prems(3)[of k' v' x] x(2,3) by simp
    moreover have "k \<notin> fst ` set al" using Cons.prems(1) a by simp
    ultimately show False using x(2) by force
  qed
  from 1 2 3 show ?case by (simp add: a)
qed

lemma distinct_combinations:
  assumes "wf_model m"
  shows "distinct (combinations m)"
  unfolding combinations_def
proof (rule distinct_concat_keyed[where key = fst], goal_cases)
  case 1
  then show ?case using assms by (simp add: wf_model_def)
next
  case (2 fs F)
  then have F: "distinct (map fst (entity_types F))"
    "\<And>et T. (et, T) \<in> set (entity_types F) \<Longrightarrow> wf_entity_type T"
    using assms by (auto simp add: wf_model_def list_all_iff)
  show ?case
  proof (rule distinct_concat_keyed[where key = "\<lambda>x. fst (snd x)"], goal_cases)
    case 1
    then show ?case by (rule F(1))
  next
    case (2 et T)
    then have T: "distinct (map fst (entities T))"
      "\<And>e E. (e, E) \<in> set (entities T) \<Longrightarrow> distinct (map fst (features E))"
      using F(2)[of et T] by (auto simp add: wf_entity_type_def list_all_iff)
    show ?case
    proof (rule distinct_concat_keyed[where key = "\<lambda>x. fst (snd (snd x))"], goal_cases)
      case 1
      then show ?case by (rule T(1))
    next
      case (2 e E)
      have "map (\<lambda>(f, x). (fs, et, e, f)) (features E) =
            map (\<lambda>f. (fs, et, e, f)) (map fst (features E))"
        by (simp add: split_def)
      then show ?case
        using T(2)[OF 2] by (simp add: distinct_map inj_on_def)
    next
      case (3 e E x)
      then show ?case by auto
    qed
  next
    case (3 et T x)
    then show ?case by auto
  qed
next
  case (3 fs F x)
  then show ?case by auto
qed

lemma content_member:
  assumes "wf_model m" and "(fs, F) \<in> set m" and "(et, T) \<in> set (entity_types F)"
    and "(e, E) \<in> set (entities T)" and "(f, x) \<in> set (features E)"
  shows "content m fs et e f = Some (val x)" and "metadata m fs et f = et_metadata T f"
proof -
  have 1: "map_of m fs = Some F"
    using assms(1,2) by (simp add: wf_model_def)
  have F: "distinct (map fst (entity_types F))" "wf_entity_type T"
    using assms(1,2,3) by (auto simp add: wf_model_def list_all_iff)
  have 2: "map_of (entity_types F) et = Some T"
    using F(1) assms(3) by simp
  have T: "distinct (map fst (entities T))" "distinct (map fst (features E))"
    using F(2) assms(4) by (auto simp add: wf_entity_type_def list_all_iff)
  have 3: "map_of (entities T) e = Some E" "map_of (features E) f = Some x"
    using T assms(4,5) by simp_all
  show "content m fs et e f = Some (val x)"
    by (simp add: content_def et_content_def 1 2 3)
  show "metadata m fs et f = et_metadata T f"
    by (simp add: metadata_def 1 2)
qed

lemma content_SomeD:
  assumes "content m fs et e f = Some v"
  shows "\<exists>F T E x. (fs, F) \<in> set m \<and> (et, T) \<in> set (entity_types F)
           \<and> (e, E) \<in> set (entities T) \<and> (f, x) \<in> set (features E) \<and> v = val x"
  using assms
  by (auto simp add: content_def et_content_def split: option.splits dest!: map_of_SomeD)

lemma type_token:
  "name (data_type (dd_get FeatureMetadata_new (features_metadata T) f)) =
     name (case et_metadata T f of None \<Rightarrow> VALUE_TYPE_UNSPECIFIED | Some t \<Rightarrow> t)"
  by (simp add: dd_get_def et_metadata_def FeatureMetadata_new_def split: option.splits)

section \<open>Claims on the parser\<close>

text \<open>
  C4. A row whose number of tokens is not 12 is skipped: the parser logs one warning
  for it and changes nothing else, and the rest of the file is parsed as if the row were
  absent. The state after a file that contains the row is the state after the same
  file without it, but for that one warning.
\<close>

theorem malformed_row_skipped:
  assumes "length row \<noteq> 12"
  shows "parse_row uuid4 st row =
           st\<lparr>warnings := warnings st @ [Failed_to_parse (join_slash row)]\<rparr>
       \<and> (\<exists>ws1 ws2.
            parse_rows uuid4 st (pre @ row # post) =
              (parse_rows uuid4 st (pre @ post))
                \<lparr>warnings := ws1 @ Failed_to_parse (join_slash row) # ws2\<rparr>
          \<and> warnings (parse_rows uuid4 st (pre @ post)) = ws1 @ ws2)"
proof
  show "parse_row uuid4 st row =
          st\<lparr>warnings := warnings st @ [Failed_to_parse (join_slash row)]\<rparr>"
    using assms by (rule parse_row_malformed)
next
  define A where "A = parse_rows uuid4 st pre"
  obtain ws where ws:
    "\<And>w. parse_rows uuid4 (A\<lparr>warnings := w\<rparr>) post = (parse_rows uuid4 A post)\<lparr>warnings := w @ ws\<rparr>"
    using parse_rows_warnings_update by blast
  have "parse_rows uuid4 (A\<lparr>warnings := warnings A\<rparr>) post =
          (parse_rows uuid4 A post)\<lparr>warnings := warnings A @ ws\<rparr>"
    by (rule ws)
  then have "warnings (parse_rows uuid4 A post) =
      warnings ((parse_rows uuid4 A post)\<lparr>warnings := warnings A @ ws\<rparr>)"
    by simp
  then have without: "warnings (parse_rows uuid4 A post) = warnings A @ ws"
    by simp
  have "parse_rows uuid4 st (pre @ row # post) =
          parse_rows uuid4 (A\<lparr>warnings := warnings A @ [Failed_to_parse (join_slash row)]\<rparr>) post"
    by (simp add: parse_rows_append parse_rows_Cons A_def parse_row_malformed[OF assms])
  also have "\<dots> = (parse_rows uuid4 A post)
                    \<lparr>warnings := warnings A @ Failed_to_parse (join_slash row) # ws\<rparr>"
    by (simp add: ws)
  finally have "parse_rows uuid4 st (pre @ row # post) =
      (parse_rows uuid4 st (pre @ post))
        \<lparr>warnings := warnings A @ Failed_to_parse (join_slash row) # ws\<rparr>"
    by (simp add: parse_rows_append A_def)
  moreover have "warnings (parse_rows uuid4 st (pre @ post)) = warnings A @ ws"
    using without by (simp add: parse_rows_append A_def)
  ultimately show "\<exists>ws1 ws2.
            parse_rows uuid4 st (pre @ row # post) =
              (parse_rows uuid4 st (pre @ post))
                \<lparr>warnings := ws1 @ Failed_to_parse (join_slash row) # ws2\<rparr>
          \<and> warnings (parse_rows uuid4 st (pre @ post)) = ws1 @ ws2"
    by blast
qed

theorem malformed_row_skipped_witness:
  "length [''bad line''] \<noteq> 12
   \<and> parse_row example_uuid4 parse_state_init [''bad line''] =
       parse_state_init\<lparr>warnings := warnings parse_state_init @ [Failed_to_parse ''bad line'']\<rparr>
   \<and> (\<exists>ws1 ws2.
        parse_rows example_uuid4 parse_state_init ([example_row] @ [''bad line''] # [example_row]) =
          (parse_rows example_uuid4 parse_state_init ([example_row] @ [example_row]))
            \<lparr>warnings := ws1 @ Failed_to_parse ''bad line'' # ws2\<rparr>
      \<and> warnings (parse_rows example_uuid4 parse_state_init ([example_row] @ [example_row])) =
          ws1 @ ws2)"
  using malformed_row_skipped [of "[''bad line'']" example_uuid4 parse_state_init
      "[example_row]" "[example_row]"]
  by simp

text \<open>
  C10. A row of 12 tokens is accepted whatever stands at the even positions: the line
  parser returns the tokens at positions 1, 3, 5, 7, 9 and 11, and two rows of 12 tokens
  that agree at these positions are parsed alike and have the same effect on the run.
\<close>

theorem labels_not_validated:
  assumes "length row = 12" and "length row' = 12"
    and "\<forall>i \<in> {1, 3, 5, 7, 9, 11}. row' ! i = row ! i"
  shows "parse_values row =
           (True, row ! 1, row ! 3, row ! 5, row ! 7, row ! 9, row ! 11)
       \<and> parse_values row' = parse_values row
       \<and> parse_row uuid4 st row' = parse_row uuid4 st row"
  using assms by (simp add: parse_values_def parse_row_def)

theorem labels_not_validated_witness:
  "length example_row = 12 \<and> length example_row_blank_labels = 12
   \<and> map ((!) example_row_blank_labels) [1, 3, 5, 7, 9, 11] =
       map ((!) example_row) [1, 3, 5, 7, 9, 11]
   \<and> parse_values example_row =
       (True, ''benchmark_featurestore'', ''human'', ''bob'', ''height'', ''int64'', ''4'')
   \<and> parse_values example_row_blank_labels = parse_values example_row
   \<and> parse_row example_uuid4 parse_state_init example_row_blank_labels =
       parse_row example_uuid4 parse_state_init example_row"
proof -
  have h: "length example_row = 12" "length example_row_blank_labels = 12"
    "\<forall>i \<in> {1, 3, 5, 7, 9, 11}. example_row_blank_labels ! i = example_row ! i"
    by (simp_all add: example_row_def example_row_blank_labels_def)
  have "parse_values example_row =
          (True, example_row ! 1, example_row ! 3, example_row ! 5, example_row ! 7,
           example_row ! 9, example_row ! 11)
       \<and> parse_values example_row_blank_labels = parse_values example_row
       \<and> parse_row example_uuid4 parse_state_init example_row_blank_labels =
           parse_row example_uuid4 parse_state_init example_row"
    using labels_not_validated [OF h] .
  moreover have "(example_row ! 1, example_row ! 3, example_row ! 5, example_row ! 7,
           example_row ! 9, example_row ! 11) =
       (''benchmark_featurestore'', ''human'', ''bob'', ''height'', ''int64'', ''4'')"
    by (simp add: example_row_def)
  moreover have "map ((!) example_row_blank_labels) [1, 3, 5, 7, 9, 11] =
       map ((!) example_row) [1, 3, 5, 7, 9, 11]"
    using h(3) by simp
  ultimately show ?thesis using h(1,2) by simp
qed



text \<open>
  C6. A row of 12 tokens whose data-type token is empty. If the feature already has
  recorded metadata in its entity type, the value of the row is stored, the metadata
  stays and no warning is logged. If the feature has none, neither value nor metadata
  is recorded and one warning is logged.
\<close>

theorem empty_data_type_token:
  assumes "length row = 12" and "row ! 9 = []"
  shows "(metadata (featurestores st) (mapped_id uuid4 st (row ! 1)) (row ! 3) (row ! 7) \<noteq> None \<longrightarrow>
            content (featurestores (parse_row uuid4 st row)) =
              (\<lambda>a b c d. if a = mapped_id uuid4 st (row ! 1) \<and> b = row ! 3 \<and> c = row ! 5 \<and> d = row ! 7
                          then Some (row ! 11) else content (featurestores st) a b c d)
          \<and> metadata (featurestores (parse_row uuid4 st row)) = metadata (featurestores st)
          \<and> warnings (parse_row uuid4 st row) = warnings st)
       \<and> (metadata (featurestores st) (mapped_id uuid4 st (row ! 1)) (row ! 3) (row ! 7) = None \<longrightarrow>
            content (featurestores (parse_row uuid4 st row)) = content (featurestores st)
          \<and> metadata (featurestores (parse_row uuid4 st row)) = metadata (featurestores st)
          \<and> warnings (parse_row uuid4 st row) = warnings st @ [Unknown_datatype []])"
proof -
  have ns: "\<not> scalar_token (row ! 9)"
    by (simp add: assms(2) scalar_token_def getitem_empty)
  have m: "metadata (featurestores (parse_row uuid4 st row)) = metadata (featurestores st)"
    using ns by (intro ext) (simp add: parse_row_wellformed[OF assms(1)] metadata_store_values)
  have c: "content (featurestores (parse_row uuid4 st row)) =
      (\<lambda>a b c d.
         if metadata (featurestores st) (mapped_id uuid4 st (row ! 1)) (row ! 3) (row ! 7) \<noteq> None
            \<and> a = mapped_id uuid4 st (row ! 1) \<and> b = row ! 3 \<and> c = row ! 5 \<and> d = row ! 7
         then Some (row ! 11) else content (featurestores st) a b c d)"
    using ns by (intro ext) (simp add: parse_row_wellformed[OF assms(1)] content_store_values)
  have w: "warnings (parse_row uuid4 st row) =
      warnings st @
        (if metadata (featurestores st) (mapped_id uuid4 st (row ! 1)) (row ! 3) (row ! 7) \<noteq> None
         then [] else [Unknown_datatype []])"
    by (simp add: parse_row_wellformed[OF assms(1)] warnings_store_values' assms(2) getitem_empty)
       (simp add: upper_def)
  show ?thesis
    by (simp add: m c w)
qed

theorem empty_data_type_token_witness:
  "length example_row_sally = 12 \<and> example_row_sally ! 9 = []
   \<and> metadata (featurestores (parse_row example_uuid4 parse_state_init example_row))
       ''benchmark_featurestore_d3d75'' ''human'' ''height'' = Some INT64
   \<and> content (featurestores
         (parse_row example_uuid4 (parse_row example_uuid4 parse_state_init example_row)
            example_row_sally))
       ''benchmark_featurestore_d3d75'' ''human'' ''sally'' ''height'' = Some ''3''
   \<and> metadata (featurestores
         (parse_row example_uuid4 (parse_row example_uuid4 parse_state_init example_row)
            example_row_sally)) =
       metadata (featurestores (parse_row example_uuid4 parse_state_init example_row))
   \<and> warnings (parse_row example_uuid4 (parse_row example_uuid4 parse_state_init example_row)
         example_row_sally) =
       warnings (parse_row example_uuid4 parse_state_init example_row)
   \<and> metadata (featurestores parse_state_init)
       ''benchmark_featurestore_d3d75'' ''human'' ''height'' = None
   \<and> content (featurestores (parse_row example_uuid4 parse_state_init example_row_sally)) =
       content (featurestores parse_state_init)
   \<and> metadata (featurestores (parse_row example_uuid4 parse_state_init example_row_sally)) =
       metadata (featurestores parse_state_init)
   \<and> warnings (parse_row example_uuid4 parse_state_init example_row_sally) =
       [Unknown_datatype []]"
proof -
  define st1 where "st1 = parse_row example_uuid4 parse_state_init example_row"
  have 1: "length example_row_sally = 12" and 2: "example_row_sally ! 9 = []"
    by (simp_all add: example_row_sally_def)
  have ids: "example_row_sally ! Suc 0 = ''benchmark_featurestore''"
    "example_row_sally ! 3 = ''human''" "example_row_sally ! 5 = ''sally''"
    "example_row_sally ! 7 = ''height''" "example_row_sally ! 11 = ''3''"
    by (simp_all add: example_row_sally_def)
  have st1: "st1 = store_values example_uuid4 parse_state_init ''benchmark_featurestore''
      ''human'' ''bob'' ''height'' ''int64'' ''4''"
    by (simp add: st1_def parse_row_def parse_values_def example_row_def)
  have sc: "scalar_token ''int64''" and g: "ValueType_getitem (upper ''int64'') = Some INT64"
    by (simp_all add: scalar_token_def upper_def upper_char_def ValueType_getitem_def
        is_array_type_def)
  have k1: "mapped_id example_uuid4 st1 ''benchmark_featurestore'' =
      ''benchmark_featurestore_d3d75''"
    by (simp add: st1 mapped_id_after_store example_mapped_id)
  have m1: "metadata (featurestores st1) ''benchmark_featurestore_d3d75'' ''human'' ''height'' =
      Some INT64"
    using sc g by (simp add: st1 metadata_store_values example_mapped_id example_no_metadata)
  have w0: "warnings parse_state_init = []"
    by (simp add: parse_state_init_def)
  show ?thesis
    using empty_data_type_token [OF 1 2, of st1 example_uuid4]
      empty_data_type_token [OF 1 2, of parse_state_init example_uuid4]
      1 2 m1 k1 w0
    unfolding st1_def [symmetric]
    by (simp add: ids example_mapped_id example_no_metadata)
qed



text \<open>
  C8. Within a run, the first row of 12 tokens that refers to an original featurestore
  identifier maps it to the identifier followed by an underscore and the suffix drawn
  at that row, and after any further rows the map still gives that identifier, so every
  later row for it is filed under the same one. The original identifiers of a run and
  their order do not depend on the suffixes; the identifier at position \<open>n\<close> carries
  the \<open>n\<close>-th suffix drawn. Hence two runs over the same rows whose draws differ give
  every original identifier two different remapped identifiers.
\<close>

theorem remapping_deterministic:
  "(length row = 12 \<and> map_of (featurestore_id_map st) (row ! 1) = None \<longrightarrow>
      map_of (featurestore_id_map (parse_rows uuid4 st (row # rest))) (row ! 1) =
        Some (row ! 1 @ ''_'' @ take 5 (uuid4 (uuid_calls st)))
    \<and> mapped_id uuid4 (parse_rows uuid4 st (row # rest)) (row ! 1) =
        row ! 1 @ ''_'' @ take 5 (uuid4 (uuid_calls st)))
   \<and> map fst (featurestore_id_map (parse_schema_and_data uuid4 rows)) =
       map fst (featurestore_id_map (parse_schema_and_data uuid4' rows))
   \<and> featurestore_id_map (parse_schema_and_data uuid4 rows) =
       remap_table uuid4 (map fst (featurestore_id_map (parse_schema_and_data uuid4 rows)))
   \<and> ((\<forall>n. take 5 (uuid4 n) \<noteq> take 5 (uuid4' n)) \<longrightarrow>
       (\<forall>fs a b.
          map_of (featurestore_id_map (parse_schema_and_data uuid4 rows)) fs = Some a \<longrightarrow>
          map_of (featurestore_id_map (parse_schema_and_data uuid4' rows)) fs = Some b \<longrightarrow>
          a \<noteq> b))"
proof (intro conjI impI allI)
  assume h: "length row = 12 \<and> map_of (featurestore_id_map st) (row ! 1) = None"
  define k where "k = row ! 1 @ ''_'' @ take 5 (uuid4 (uuid_calls st))"
  have "map_of (featurestore_id_map (parse_row uuid4 st row)) (row ! 1) = Some k"
    using h by (simp add: parse_row_wellformed id_map_first_reference k_def)
  then have "map_of (featurestore_id_map (parse_rows uuid4 st (row # rest))) (row ! 1) = Some k"
    unfolding parse_rows_Cons by (rule id_map_parse_rows_stable)
  then show "map_of (featurestore_id_map (parse_rows uuid4 st (row # rest))) (row ! 1) =
        Some (row ! 1 @ ''_'' @ take 5 (uuid4 (uuid_calls st)))"
    and "mapped_id uuid4 (parse_rows uuid4 st (row # rest)) (row ! 1) =
        row ! 1 @ ''_'' @ take 5 (uuid4 (uuid_calls st))"
    by (simp_all add: k_def mapped_id_known)
next
  show keys: "map fst (featurestore_id_map (parse_schema_and_data uuid4 rows)) =
       map fst (featurestore_id_map (parse_schema_and_data uuid4' rows))"
    unfolding parse_schema_and_data_def
    by (rule id_map_keys_parse_rows) simp
  show "featurestore_id_map (parse_schema_and_data uuid4 rows) =
       remap_table uuid4 (map fst (featurestore_id_map (parse_schema_and_data uuid4 rows)))"
    by (rule id_map_parse_schema_and_data)
  fix fs a b
  assume d: "\<forall>n. take 5 (uuid4 n) \<noteq> take 5 (uuid4' n)"
    and a: "map_of (featurestore_id_map (parse_schema_and_data uuid4 rows)) fs = Some a"
    and b: "map_of (featurestore_id_map (parse_schema_and_data uuid4' rows)) fs = Some b"
  define ids where "ids = map fst (featurestore_id_map (parse_schema_and_data uuid4 rows))"
  have "map_of (remap_table uuid4 ids) fs = Some a"
    using a id_map_parse_schema_and_data[of uuid4 rows] by (simp add: ids_def)
  moreover have "map_of (remap_table uuid4' ids) fs = Some b"
    using b id_map_parse_schema_and_data[of uuid4' rows] keys by (simp add: ids_def)
  ultimately obtain n where "a = fs @ ''_'' @ take 5 (uuid4 n)" "b = fs @ ''_'' @ take 5 (uuid4' n)"
    using remap_table_same_draw by blast
  then show "a \<noteq> b"
    using d by simp
qed

theorem remapping_deterministic_witness:
  "length example_row = 12
   \<and> map_of (featurestore_id_map parse_state_init) (example_row ! 1) = None
   \<and> (\<forall>n. take 5 (example_uuid4 n) \<noteq> take 5 (example_uuid4_other n))
   \<and> map_of (featurestore_id_map
         (parse_schema_and_data example_uuid4 [example_row, example_row_sally]))
       ''benchmark_featurestore'' = Some ''benchmark_featurestore_d3d75''
   \<and> map_of (featurestore_id_map
         (parse_schema_and_data example_uuid4_other [example_row, example_row_sally]))
       ''benchmark_featurestore'' = Some ''benchmark_featurestore_7c9e6''
   \<and> mapped_id example_uuid4
         (parse_schema_and_data example_uuid4 [example_row, example_row_sally])
         ''benchmark_featurestore'' = ''benchmark_featurestore_d3d75''"
proof -
  have 1: "length example_row = 12"
    and 2: "map_of (featurestore_id_map parse_state_init) (example_row ! 1) = None"
    and 3: "example_row ! Suc 0 = ''benchmark_featurestore''"
    and 4: "uuid_calls parse_state_init = 0"
    by (simp_all add: example_row_def parse_state_init_def)
  have 5: "\<forall>n. take 5 (example_uuid4 n) \<noteq> take 5 (example_uuid4_other n)"
    by (simp add: example_uuid4_def example_uuid4_other_def)
  have a: "take 5 (example_uuid4 0) = ''d3d75''" and b: "take 5 (example_uuid4_other 0) = ''7c9e6''"
    by (simp_all add: example_uuid4_def example_uuid4_other_def)
  show ?thesis
    using remapping_deterministic [of example_row parse_state_init example_uuid4
        "[example_row_sally]" "[example_row, example_row_sally]" example_uuid4_other]
      remapping_deterministic [of example_row parse_state_init example_uuid4_other
        "[example_row_sally]" "[example_row, example_row_sally]" example_uuid4]
      1 2 5
    by (simp add: 3 4 a b parse_schema_and_data_def)
qed

section \<open>Claims on the remote steps\<close>




text \<open>
  C7. When every row of the input has a number of tokens other than 12, in particular
  when there is no row, the parsed model has no featurestore and \<open>execute\<close> issues
  no call: no client is constructed, nothing is created or uploaded, and the run ends
  without an exception. Each row is reported by one warning.
\<close>

theorem empty_input_no_remote_calls:
  assumes "\<forall>row \<in> set rows. length row \<noteq> 12"
  shows "featurestores (parse_schema_and_data uuid4 rows) = []
       \<and> execute environment uuid4 gcs_path rows =
           (map (\<lambda>row. Failed_to_parse (join_slash row)) rows, \<lparr>calls = [], drawn = 0\<rparr>, Inr ())"
  using parse_rows_all_malformed[OF assms, of uuid4 parse_state_init]
  by (simp add: execute_def parse_schema_and_data_def Let_def parse_state_init_def)

theorem empty_input_no_remote_calls_witness:
  "length [''bad line''] \<noteq> 12
   \<and> featurestores (parse_schema_and_data example_uuid4 [[''bad line'']]) = []
   \<and> execute example_env_failing example_uuid4 ''gs://scratch_space/some/path'' [[''bad line'']] =
       ([Failed_to_parse ''bad line''], \<lparr>calls = [], drawn = 0\<rparr>, Inr ())
   \<and> execute example_env_failing example_uuid4 ''gs://scratch_space/some/path'' [] =
       ([], \<lparr>calls = [], drawn = 0\<rparr>, Inr ())"
  using empty_input_no_remote_calls [of "[[''bad line'']]" example_uuid4 example_env_failing
      "''gs://scratch_space/some/path''"]
    empty_input_no_remote_calls [of "[]" example_uuid4 example_env_failing
      "''gs://scratch_space/some/path''"]
  by simp

end
